theory Spec2Isabelle
  imports Main "HOL-Library.AList" "HOL-Library.Multiset"
begin

section \<open>JSON values and documents\<close>

text \<open>
  The store of \<^verbatim>\<open>farusql.js\<close> keeps JSON documents. A value is one of the six JSON
  shapes; the JavaScript value \<^verbatim>\<open>undefined\<close> (a missing property) is \<open>None\<close> of
  \<open>json option\<close>. An object is an association list in insertion order, the order
  \<^verbatim>\<open>for (key in obj)\<close> and \<^verbatim>\<open>Object.keys\<close> enumerate (keys that look like array
  indices, which JavaScript enumerates first, are outside the model). A number is an
  integer that a double holds exactly and that \<^verbatim>\<open>String\<close> prints digit by digit (below
  \<open>2\<^sup>5\<^sup>3\<close> in magnitude). A string is a list of code units below 256, the Latin-1
  range of UTF-16.

  A property that an object does not own is \<^verbatim>\<open>undefined\<close> in the model. In JavaScript
  the lookup goes on to the prototype, so that the names listed in \<open>inheritedNames\<close>
  below are found in every object literal; the theorems that depend on a lookup of a
  name the caller chooses (a word, an id or a value used as a key) exclude these names.

  \<^verbatim>\<open>_deepClone\<close> is \<^verbatim>\<open>JSON.parse(JSON.stringify(x))\<close>: on a JSON value it returns an
  equal value that shares no reference with \<open>x\<close>. In the value semantics of HOL it
  is the identity there; what the source gains from it (no aliasing between the
  collection, a snapshot and a returned document) holds of every HOL value. On the
  secondary indexes, whose id lists can hold \<^verbatim>\<open>undefined\<close>, it is \<open>jsonIndexes\<close> below.
\<close>

datatype json =
    JNull
  | JBool bool
  | JNum int
  | JStr string
  | JArr "json list"
  | JObj "(string \<times> json) list"

type_synonym obj = "(string \<times> json) list"

abbreviation (input) deepClone :: "'a \<Rightarrow> 'a" where
  "deepClone x \<equiv> x"

text \<open>Truthiness, as \<^verbatim>\<open>if (v)\<close> and \<^verbatim>\<open>!v\<close> read a value.\<close>

fun truthy :: "json \<Rightarrow> bool" where
  "truthy JNull = False"
| "truthy (JBool b) = b"
| "truthy (JNum n) = (n \<noteq> 0)"
| "truthy (JStr s) = (s \<noteq> [])"
| "truthy (JArr xs) = True"
| "truthy (JObj kvs) = True"

fun truthyOpt :: "json option \<Rightarrow> bool" where
  "truthyOpt None = False"
| "truthyOpt (Some v) = truthy v"

fun nullish :: "json option \<Rightarrow> bool" where
  "nullish None = True"
| "nullish (Some JNull) = True"
| "nullish (Some v) = False"

text \<open>
  \<^verbatim>\<open>a === b\<close> (and the SameValueZero of \<^verbatim>\<open>Set.has\<close> and \<^verbatim>\<open>Array.includes\<close>, which
  differs from it only on NaN). Arrays and objects are compared by reference: in the
  comparisons of the source one side is a fresh clone or a caller's value and the other
  a stored one, so two of them are never identical. (The one comparison of two stored
  values is that of \<^verbatim>\<open>_updateIndexesOnDelete\<close>, between an index entry and the deleted
  document's id; there the model, like the source after a reload of the index file,
  keeps an id that is an array or an object.)
\<close>

fun strictEq :: "json option \<Rightarrow> json option \<Rightarrow> bool" where
  "strictEq (Some (JArr xs)) b = False"
| "strictEq (Some (JObj kvs)) b = False"
| "strictEq a b = (a = b)"

text \<open>
  Decimal digits of a number, as \<^verbatim>\<open>String(n)\<close> prints an integer below \<open>10\<^sup>2\<^sup>1\<close> in
  magnitude (from there on JavaScript prints an exponent).
\<close>

fun showNat :: "nat \<Rightarrow> string" where
  "showNat n = (if n < 10 then [char_of (48 + n)]
                else showNat (n div 10) @ [char_of (48 + n mod 10)])"

declare showNat.simps [simp del]

definition showInt :: "int \<Rightarrow> string" where
  "showInt i = (if i < 0 then CHR ''-'' # showNat (nat (- i)) else showNat (nat i))"

text \<open>
  \<^verbatim>\<open>String(v)\<close>, which is also how a value used as a property key is converted.
  An array prints its elements joined by commas, \<^verbatim>\<open>null\<close> elements as nothing.
\<close>

fun toStr :: "json \<Rightarrow> string" and toStrList :: "json list \<Rightarrow> string" where
  "toStr JNull = ''null''"
| "toStr (JBool b) = (if b then ''true'' else ''false'')"
| "toStr (JNum n) = showInt n"
| "toStr (JStr s) = s"
| "toStr (JArr xs) = toStrList xs"
| "toStr (JObj kvs) = ''[object Object]''"
| "toStrList [] = []"
| "toStrList [x] = (if x = JNull then [] else toStr x)"
| "toStrList (x # y # ys) = (if x = JNull then [] else toStr x) @ '','' @ toStrList (y # ys)"

fun propKey :: "json option \<Rightarrow> string" where
  "propKey None = ''undefined''"
| "propKey (Some v) = toStr v"

text \<open>Property access \<^verbatim>\<open>o[k]\<close> on a JSON value.\<close>

fun getProp :: "json \<Rightarrow> string \<Rightarrow> json option" where
  "getProp (JObj kvs) k = map_of kvs k"
| "getProp (JArr xs) k =
     (if k = ''length'' then Some (JNum (int (length xs)))
      else (case find (\<lambda>i. showNat i = k) [0 ..< length xs] of
              Some i \<Rightarrow> Some (xs ! i) | None \<Rightarrow> None))"
| "getProp (JStr s) k =
     (if k = ''length'' then Some (JNum (int (length s)))
      else (case find (\<lambda>i. showNat i = k) [0 ..< length s] of
              Some i \<Rightarrow> Some (JStr [s ! i]) | None \<Rightarrow> None))"
| "getProp v k = None"

text \<open>\<^verbatim>\<open>key.split(".")\<close>: always at least one part.\<close>

fun splitDot :: "string \<Rightarrow> string list" where
  "splitDot [] = [[]]"
| "splitDot (c # cs) =
     (if c = CHR ''.'' then [] # splitDot cs
      else (case splitDot cs of [] \<Rightarrow> [[c]] | p # ps \<Rightarrow> (c # p) # ps))"

text \<open>
  \<^verbatim>\<open>_getValueByDot(obj, key)\<close>:
  \<^verbatim>\<open>key.split(".").reduce((o, k) => (o ? o[k] : undefined), obj)\<close>.
\<close>

definition getStep :: "json option \<Rightarrow> string \<Rightarrow> json option" where
  "getStep acc k = (case acc of None \<Rightarrow> None | Some v \<Rightarrow> if truthy v then getProp v k else None)"

definition getValueByDot :: "obj \<Rightarrow> string \<Rightarrow> json option" where
  "getValueByDot d key = foldl getStep (Some (JObj d)) (splitDot key)"

text \<open>
  \<^verbatim>\<open>_setValueByDot(obj, key, value)\<close>: every part of the path but the last is made an
  object unless it already is one (not an array, not \<^verbatim>\<open>null\<close>).
\<close>

fun setPath :: "string list \<Rightarrow> json \<Rightarrow> obj \<Rightarrow> obj" where
  "setPath [] v d = d"
| "setPath [k] v d = AList.update k v d"
| "setPath (k # ks) v d =
     AList.update k
       (JObj (setPath ks v (case map_of d k of Some (JObj sub) \<Rightarrow> sub | _ \<Rightarrow> []))) d"

definition setValueByDot :: "obj \<Rightarrow> string \<Rightarrow> json \<Rightarrow> obj" where
  "setValueByDot d key v = setPath (splitDot key) v d"

text \<open>
  The names every object inherits from \<^verbatim>\<open>Object.prototype\<close>, and a name that is none
  of them.
\<close>

definition inheritedNames :: "string list" where
  "inheritedNames =
     [''constructor'', ''__defineGetter__'', ''__defineSetter__'', ''hasOwnProperty'',
      ''__lookupGetter__'', ''__lookupSetter__'', ''isPrototypeOf'', ''propertyIsEnumerable'',
      ''toString'', ''valueOf'', ''__proto__'', ''toLocaleString'']"

definition ownName :: "string \<Rightarrow> bool" where
  "ownName k = (k \<notin> set inheritedNames)"

text \<open>The reserved fields of a document.\<close>

definition docId :: "obj \<Rightarrow> json option" where
  "docId d = map_of d ''_id''"

definition isDeleted :: "obj \<Rightarrow> bool" where
  "isDeleted d = truthyOpt (map_of d ''_deleted'')"

section \<open>The platform\<close>

text \<open>
  What the source takes from the JavaScript platform and not from its own code is a
  parameter of the model: whether the process is Node.js (\<^verbatim>\<open>isNode\<close>), the outcomes
  of \<^verbatim>\<open>uuidv4()\<close> and of \<^verbatim>\<open>new Date().toISOString()\<close> (the n-th call returns the
  n-th element), the coercing comparisons \<^verbatim>\<open>==\<close> and \<^verbatim>\<open><\<close> between operands of
  different types, \<^verbatim>\<open>String.localeCompare\<close>, \<^verbatim>\<open>JSON.stringify\<close> and \<^verbatim>\<open>JSON.parse\<close>,
  \<^verbatim>\<open>btoa\<close> and \<^verbatim>\<open>atob\<close> (\<open>None\<close> when \<^verbatim>\<open>atob\<close> throws), and the order in which
  \<^verbatim>\<open>Array.prototype.sort\<close> leaves an array when its comparator is not a consistent
  ordering of the elements (\<open>engineSort\<close>: the language leaves that order to the
  engine). The theorems below hold for every platform; the examples are evaluated on
  the platform \<open>nodePlatform\<close>.
\<close>

record platform =
  isNode :: bool
  uuidv4 :: "nat \<Rightarrow> string"
  nowISO :: "nat \<Rightarrow> string"
  looseEqMixed :: "json \<Rightarrow> json \<Rightarrow> bool"
  lessThanMixed :: "json option \<Rightarrow> json option \<Rightarrow> bool option"
  localeCompare :: "string \<Rightarrow> string \<Rightarrow> int"
  jsonStringify :: "json \<Rightarrow> string"
  jsonParse :: "string \<Rightarrow> json option"
  btoa :: "string \<Rightarrow> string"
  atob :: "string \<Rightarrow> string option"
  engineSort :: "((string \<times> json) list \<Rightarrow> (string \<times> json) list \<Rightarrow> int)
    \<Rightarrow> (string \<times> json) list list \<Rightarrow> (string \<times> json) list list"

section \<open>The store\<close>

text \<open>
  A query condition is \<^verbatim>\<open>{field, operator, value}\<close> (pushed by \<^verbatim>\<open>where\<close>,
  \<^verbatim>\<open>whereIn\<close>, \<^verbatim>\<open>whereLike\<close>) or \<^verbatim>\<open>{or: [...]}\<close> (pushed by \<^verbatim>\<open>orWhere\<close>).
\<close>

datatype cond =
    Cond string string "json option"
  | OrGroup "(string \<times> string \<times> json option) list"

text \<open>
  A secondary index \<^verbatim>\<open>{fields, map}\<close>: its field paths and the map from a composite
  key to the ids pushed under it.
\<close>

record index =
  idxFields :: "string list"
  idxMap :: "(string \<times> json option list) list"

text \<open>
  An entry of the transaction log, and a change handed to a listener. The entry of an
  insert holds the stored document; the model records it as it is when logged.
\<close>

datatype logEntry =
    LogInsert obj
  | LogInsertMany "obj list"
  | LogUpdate "obj list"
  | LogDelete "json option" bool

type_synonym change = "obj \<times> string"

datatype error =
    ValidationFailed
  | TransactionLock
  | TransactionState
  | NotNode
  | JsTypeError

text \<open>
  The fields of the class \<^verbatim>\<open>farusql\<close>, and with them what its methods act on outside
  the object: the three files (\<open>None\<close>: the file is missing or empty; otherwise its
  parsed content), the calls made to the change listeners so far (\<open>delivered\<close>; a
  listener is named by a number, and a listener that throws is ignored by the source)
  and how many outcomes of \<^verbatim>\<open>uuidv4\<close> and of the clock have been consumed. A
  validation callback is the test \<^verbatim>\<open>cb(doc) === true\<close>. \<^verbatim>\<open>transactionLock\<close> is \<^verbatim>\<open>null\<close>
  (\<open>JNull\<close>) or the id given to \<^verbatim>\<open>beginTransaction\<close>. The set \<^verbatim>\<open>indexedFields\<close> and
  the cache \<^verbatim>\<open>_internalCache\<close> are written and never read by the methods modelled here,
  and are left out.
\<close>

record store =
  data :: "obj list"
  dataLoaded :: bool
  indexes :: "(string \<times> index) list"
  indexesLoaded :: bool
  fullTextIndex :: "(string \<times> string list) list"
  fullTextIndexLoaded :: bool
  fullTextIndexedFields :: "string list"
  wheres :: "cond list"
  limitCount :: "int option"
  skipCount :: int
  orderByField :: "string option"
  orderByDirection :: string
  validationCallbacks :: "(obj \<Rightarrow> bool) list"
  transactionLock :: json
  inTransaction :: bool
  transactionLog :: "logEntry list"
  softDeleteEnabled :: bool
  showDeleted :: bool
  changeListeners :: "nat list"
  encryptionKey :: "string option"
  encryptedFields :: "string list"
  initialDataState :: "obj list option"
  initialIndexesState :: "(string \<times> index) list option"
  initialFullTextIndexState :: "(string \<times> string list) list option"
  fileData :: "obj list option"
  fileIndexes :: "(string \<times> index) list option"
  fileFullTextIndex :: "(string \<times> string list) list option"
  delivered :: "(nat \<times> change) list"
  uuidCount :: nat
  clock :: nat

subsection \<open>Loading and saving\<close>

text \<open>
  \<^verbatim>\<open>loadData\<close>: once; in Node.js the file is read, and when soft deletes are enabled
  and deleted documents are not shown, the documents marked \<^verbatim>\<open>_deleted\<close> are
  filtered out of the collection in memory.
\<close>

definition loadData :: "platform \<Rightarrow> store \<Rightarrow> store" where
  "loadData env s =
     (if dataLoaded s then s
      else if isNode env then
        (case fileData s of
           Some content \<Rightarrow>
             s\<lparr>data := (if softDeleteEnabled s \<and> \<not> showDeleted s
                         then filter (\<lambda>d. \<not> isDeleted d) content else content),
               dataLoaded := True\<rparr>
         | None \<Rightarrow> s\<lparr>data := [], dataLoaded := True\<rparr>)
      else s\<lparr>dataLoaded := True\<rparr>)"

text \<open>\<^verbatim>\<open>saveData\<close>: in Node.js the whole of \<^verbatim>\<open>this.data\<close> replaces the file.\<close>

definition saveData :: "platform \<Rightarrow> store \<Rightarrow> store" where
  "saveData env s = (if isNode env then s\<lparr>fileData := Some (data s)\<rparr> else s)"

definition loadIndexes :: "platform \<Rightarrow> store \<Rightarrow> store" where
  "loadIndexes env s =
     (if indexesLoaded s then s
      else if isNode env then
        s\<lparr>indexes := (case fileIndexes s of Some content \<Rightarrow> content | None \<Rightarrow> []),
          indexesLoaded := True\<rparr>
      else s\<lparr>indexes := [], indexesLoaded := True\<rparr>)"

text \<open>
  \<^verbatim>\<open>JSON.stringify\<close> writes an \<^verbatim>\<open>undefined\<close> array element as \<^verbatim>\<open>null\<close>: what
  \<^verbatim>\<open>saveIndexes\<close> writes, and what \<^verbatim>\<open>_deepClone\<close> returns, for the secondary indexes.
\<close>

definition jsonIds :: "json option list \<Rightarrow> json option list" where
  "jsonIds ids = map (\<lambda>i. case i of None \<Rightarrow> Some JNull | Some v \<Rightarrow> Some v) ids"

definition jsonIndex :: "index \<Rightarrow> index" where
  "jsonIndex idx = idx\<lparr>idxMap := map (\<lambda>(k, ids). (k, jsonIds ids)) (idxMap idx)\<rparr>"

definition jsonIndexes :: "(string \<times> index) list \<Rightarrow> (string \<times> index) list" where
  "jsonIndexes idxs = map (\<lambda>(name, idx). (name, jsonIndex idx)) idxs"

definition saveIndexes :: "platform \<Rightarrow> store \<Rightarrow> store" where
  "saveIndexes env s =
     (if isNode env then s\<lparr>fileIndexes := Some (jsonIndexes (indexes s))\<rparr> else s)"

definition loadFullTextIndex :: "platform \<Rightarrow> store \<Rightarrow> store" where
  "loadFullTextIndex env s =
     (if fullTextIndexLoaded s then s
      else if isNode env then
        s\<lparr>fullTextIndex := (case fileFullTextIndex s of Some content \<Rightarrow> content | None \<Rightarrow> []),
          fullTextIndexLoaded := True\<rparr>
      else s\<lparr>fullTextIndex := [], fullTextIndexLoaded := True\<rparr>)"

definition saveFullTextIndex :: "platform \<Rightarrow> store \<Rightarrow> store" where
  "saveFullTextIndex env s =
     (if isNode env then s\<lparr>fileFullTextIndex := Some (fullTextIndex s)\<rparr> else s)"

text \<open>The three loads that open every mutating method, and the three saves that close it.\<close>

definition loadAll :: "platform \<Rightarrow> store \<Rightarrow> store" where
  "loadAll env s = loadFullTextIndex env (loadIndexes env (loadData env s))"

definition saveAll :: "platform \<Rightarrow> store \<Rightarrow> store" where
  "saveAll env s = saveFullTextIndex env (saveIndexes env (saveData env s))"

subsection \<open>Encryption, validation, change listeners\<close>

text \<open>
  \<^verbatim>\<open>simpleEncrypt(text, key)\<close> and \<^verbatim>\<open>simpleDecrypt(encoded, key)\<close>: every code unit
  is combined by XOR with the code unit of the key at the same position, the key
  repeated; the result goes through \<^verbatim>\<open>btoa\<close>, and comes back through \<^verbatim>\<open>atob\<close>, which
  converts its argument to a string and may throw.
\<close>

fun xorChar :: "char \<Rightarrow> char \<Rightarrow> char" where
  "xorChar (Char a0 a1 a2 a3 a4 a5 a6 a7) (Char b0 b1 b2 b3 b4 b5 b6 b7) =
     Char (a0 \<noteq> b0) (a1 \<noteq> b1) (a2 \<noteq> b2) (a3 \<noteq> b3) (a4 \<noteq> b4) (a5 \<noteq> b5) (a6 \<noteq> b6) (a7 \<noteq> b7)"

definition xorWith :: "string \<Rightarrow> string \<Rightarrow> string" where
  "xorWith key text =
     map (\<lambda>i. xorChar (text ! i) (key ! (i mod length key))) [0 ..< length text]"

definition simpleEncrypt :: "platform \<Rightarrow> string \<Rightarrow> string \<Rightarrow> string" where
  "simpleEncrypt env text key = btoa env (xorWith key text)"

definition simpleDecrypt :: "platform \<Rightarrow> json \<Rightarrow> string \<Rightarrow> string option" where
  "simpleDecrypt env encoded key = map_option (xorWith key) (atob env (toStr encoded))"

text \<open>
  \<^verbatim>\<open>_encryptDocument\<close> and \<^verbatim>\<open>_decryptDocument\<close>: the document itself when no key is
  set (\<^verbatim>\<open>!this.encryptionKey\<close>, so an empty key counts as none); otherwise every
  encrypted field that is present is replaced by its cipher text, or by the parsed
  plain text (a field whose decryption throws is left as it is).
\<close>

definition encryptField :: "platform \<Rightarrow> string \<Rightarrow> obj \<Rightarrow> string \<Rightarrow> obj" where
  "encryptField env k d field =
     (case getValueByDot d field of
        None \<Rightarrow> d
      | Some v \<Rightarrow>
          setValueByDot d field
            (JStr (simpleEncrypt env (case v of JStr t \<Rightarrow> t | _ \<Rightarrow> jsonStringify env v) k)))"

definition encryptDocument :: "platform \<Rightarrow> store \<Rightarrow> obj \<Rightarrow> obj" where
  "encryptDocument env s d =
     (case encryptionKey s of
        None \<Rightarrow> d
      | Some k \<Rightarrow> if k = [] then d else foldl (encryptField env k) d (encryptedFields s))"

definition decryptField :: "platform \<Rightarrow> string \<Rightarrow> obj \<Rightarrow> string \<Rightarrow> obj" where
  "decryptField env k d field =
     (case getValueByDot d field of
        None \<Rightarrow> d
      | Some v \<Rightarrow>
          (case simpleDecrypt env v k of
             None \<Rightarrow> d
           | Some plain \<Rightarrow>
               setValueByDot d field
                 (case jsonParse env plain of Some j \<Rightarrow> j | None \<Rightarrow> JStr plain)))"

definition decryptDocument :: "platform \<Rightarrow> store \<Rightarrow> obj \<Rightarrow> obj" where
  "decryptDocument env s d =
     (case encryptionKey s of
        None \<Rightarrow> d
      | Some k \<Rightarrow> if k = [] then d else foldl (decryptField env k) d (encryptedFields s))"

text \<open>
  \<^verbatim>\<open>validateDocument\<close> throws unless every callback returns \<^verbatim>\<open>true\<close>; the model
  returns whether it passes.
\<close>

definition validateDocument :: "store \<Rightarrow> obj \<Rightarrow> bool" where
  "validateDocument s d = list_all (\<lambda>cb. cb d) (validationCallbacks s)"

text \<open>
  \<^verbatim>\<open>_triggerChange(doc, type)\<close>: every listener is called, in order of registration,
  but only when no transaction is active.
\<close>

definition triggerChange :: "obj \<Rightarrow> string \<Rightarrow> store \<Rightarrow> store" where
  "triggerChange d kind s =
     (if \<not> inTransaction s
      then s\<lparr>delivered := delivered s @ map (\<lambda>cb. (cb, (deepClone d, kind))) (changeListeners s)\<rparr>
      else s)"

fun triggerChanges :: "obj list \<Rightarrow> string \<Rightarrow> store \<Rightarrow> store" where
  "triggerChanges [] kind s = s"
| "triggerChanges (d # ds) kind s = triggerChanges ds kind (triggerChange d kind s)"

subsection \<open>Timestamps and revisions\<close>

definition addTimestamps :: "string \<Rightarrow> bool \<Rightarrow> obj \<Rightarrow> obj" where
  "addTimestamps now isNew d =
     AList.update ''_updated'' (JStr now)
       (if isNew then AList.update ''_created'' (JStr now) d else d)"

text \<open>
  \<^verbatim>\<open>_addRevision(doc, action)\<close>: \<^verbatim>\<open>_revisions\<close> becomes \<^verbatim>\<open>[]\<close> when it is missing or
  falsy, and the revision is pushed onto it; \<open>None\<close> is the \<^verbatim>\<open>TypeError\<close> of calling
  \<^verbatim>\<open>push\<close> on a value that is not an array.
\<close>

definition addRevision :: "string \<Rightarrow> string \<Rightarrow> string \<Rightarrow> obj \<Rightarrow> obj option" where
  "addRevision revisionId timestamp action d =
     (let d1 = (if truthyOpt (map_of d ''_revisions'') then d
                else AList.update ''_revisions'' (JArr []) d)
      in case map_of d1 ''_revisions'' of
           Some (JArr rs) \<Rightarrow>
             Some (AList.update ''_revisions''
                     (JArr (rs @ [JObj [(''_revisionId'', JStr revisionId),
                                        (''_timestamp'', JStr timestamp),
                                        (''_action'', JStr action)]])) d1)
         | _ \<Rightarrow> None)"

text \<open>
  \<^verbatim>\<open>_deepMerge(target, source)\<close>: an object of the patch is merged into the target's
  object (made \<^verbatim>\<open>{}\<close> unless it already is one); every other value, arrays included,
  overwrites. The source stores the patch's own array, so that an array of the patch is
  shared by the documents it was merged into; the model gives each document its copy,
  which differs only if the array is later changed in place, as \<^verbatim>\<open>_revisions\<close> is: a
  patch that mentions \<^verbatim>\<open>_revisions\<close> is outside the model.
\<close>

fun deepMerge :: "obj \<Rightarrow> obj \<Rightarrow> obj" where
  "deepMerge target [] = target"
| "deepMerge target ((k, JObj sub) # rest) =
     deepMerge
       (AList.update k
          (JObj (deepMerge (case map_of target k of Some (JObj t) \<Rightarrow> t | _ \<Rightarrow> []) sub)) target)
       rest"
| "deepMerge target ((k, v) # rest) = deepMerge (AList.update k v target) rest"

subsection \<open>Secondary indexes\<close>

definition serializeIndexValue :: "platform \<Rightarrow> json option \<Rightarrow> string" where
  "serializeIndexValue env v =
     (case v of
        Some (JBool b) \<Rightarrow> (if b then ''1'' else ''0'')
      | None \<Rightarrow> ''NULL''
      | Some JNull \<Rightarrow> ''NULL''
      | Some (JArr xs) \<Rightarrow> jsonStringify env (JArr xs)
      | Some (JObj kvs) \<Rightarrow> jsonStringify env (JObj kvs)
      | Some (JNum n) \<Rightarrow> showInt n
      | Some (JStr t) \<Rightarrow> t)"

fun joinWith :: "string \<Rightarrow> string list \<Rightarrow> string" where
  "joinWith sep [] = []"
| "joinWith sep [x] = x"
| "joinWith sep (x # y # ys) = x @ sep @ joinWith sep (y # ys)"

text \<open>
  \<^verbatim>\<open>_getCompositeIndexValue(doc, fields)\<close>: \<^verbatim>\<open>null\<close> (\<open>None\<close>) as soon as one field is
  \<^verbatim>\<open>null\<close> or missing, otherwise the serialized values joined by a bar.
\<close>

fun compositeParts :: "platform \<Rightarrow> obj \<Rightarrow> string list \<Rightarrow> string list option" where
  "compositeParts env d [] = Some []"
| "compositeParts env d (f # fs) =
     (if nullish (getValueByDot d f) then None
      else (case compositeParts env d fs of
              None \<Rightarrow> None
            | Some ps \<Rightarrow> Some (serializeIndexValue env (getValueByDot d f) # ps)))"

definition getCompositeIndexValue :: "platform \<Rightarrow> obj \<Rightarrow> string list \<Rightarrow> string option" where
  "getCompositeIndexValue env d fs = map_option (joinWith ''|'') (compositeParts env d fs)"

text \<open>\<^verbatim>\<open>if (!map[key]) map[key] = []; map[key].push(id)\<close>.\<close>

definition pushId :: "string \<Rightarrow> json option \<Rightarrow> (string \<times> json option list) list
    \<Rightarrow> (string \<times> json option list) list" where
  "pushId key i m = AList.update key ((case map_of m key of Some ids \<Rightarrow> ids | None \<Rightarrow> []) @ [i]) m"

text \<open>
  \<^verbatim>\<open>createIndex(fields, name)\<close> scans the collection once; a document with a missing
  field is left out. The default name joins the fields with an underscore.
\<close>

fun indexDocs :: "platform \<Rightarrow> string list \<Rightarrow> obj list
    \<Rightarrow> (string \<times> json option list) list \<Rightarrow> (string \<times> json option list) list" where
  "indexDocs env fs [] m = m"
| "indexDocs env fs (d # ds) m =
     indexDocs env fs ds
       (case getCompositeIndexValue env d fs of
          None \<Rightarrow> m
        | Some key \<Rightarrow> pushId key (docId d) m)"

definition createIndex :: "platform \<Rightarrow> string list \<Rightarrow> string option \<Rightarrow> store \<Rightarrow> store" where
  "createIndex env fs name s =
     (let s1 = loadIndexes env (loadData env s);
          indexName = (case name of
                         Some n \<Rightarrow> if n = [] then joinWith ''_'' fs else n
                       | None \<Rightarrow> joinWith ''_'' fs)
      in saveIndexes env
           (s1\<lparr>indexes := AList.update indexName
                  \<lparr>idxFields = fs, idxMap = indexDocs env fs (data s1) []\<rparr> (indexes s1)\<rparr>))"

definition updateIndexesOnInsert :: "platform \<Rightarrow> obj \<Rightarrow> (string \<times> index) list
    \<Rightarrow> (string \<times> index) list" where
  "updateIndexesOnInsert env d idxs =
     map (\<lambda>(name, idx).
            (name, case getCompositeIndexValue env d (idxFields idx) of
                     None \<Rightarrow> idx
                   | Some key \<Rightarrow> idx\<lparr>idxMap := pushId key (docId d) (idxMap idx)\<rparr>))
         idxs"

text \<open>
  \<^verbatim>\<open>_updateIndexesOnUpdate(oldDoc, newDoc)\<close>: nothing when the key is unchanged;
  otherwise the id leaves the old key's list (an emptied list is deleted) and is pushed
  under the new key. Both steps test the key for truthiness, so the empty key is
  skipped.
\<close>

definition removeFromKey :: "string option \<Rightarrow> json option \<Rightarrow> (string \<times> json option list) list
    \<Rightarrow> (string \<times> json option list) list" where
  "removeFromKey oldKey i m =
     (case oldKey of
        None \<Rightarrow> m
      | Some k \<Rightarrow>
          if k = [] then m
          else (case map_of m k of
                  None \<Rightarrow> m
                | Some ids \<Rightarrow>
                    (let ids' = filter (\<lambda>j. \<not> strictEq j i) ids
                     in if ids' = [] then AList.delete k m else AList.update k ids' m)))"

definition addToKey :: "string option \<Rightarrow> json option \<Rightarrow> (string \<times> json option list) list
    \<Rightarrow> (string \<times> json option list) list" where
  "addToKey newKey i m =
     (case newKey of None \<Rightarrow> m | Some k \<Rightarrow> if k = [] then m else pushId k i m)"

definition updateIndexesOnUpdate :: "platform \<Rightarrow> obj \<Rightarrow> obj \<Rightarrow> (string \<times> index) list
    \<Rightarrow> (string \<times> index) list" where
  "updateIndexesOnUpdate env oldDoc newDoc idxs =
     map (\<lambda>(name, idx).
            (let oldKey = getCompositeIndexValue env oldDoc (idxFields idx);
                 newKey = getCompositeIndexValue env newDoc (idxFields idx)
             in (name, if oldKey = newKey then idx
                       else idx\<lparr>idxMap := addToKey newKey (docId newDoc)
                                            (removeFromKey oldKey (docId oldDoc) (idxMap idx))\<rparr>)))
         idxs"

text \<open>
  \<^verbatim>\<open>_updateIndexesOnDelete(deletedIds)\<close>: the ids leave every list of every index, and
  emptied lists are deleted.
\<close>

definition pruneIds :: "json option list \<Rightarrow> (string \<times> json option list) list
    \<Rightarrow> (string \<times> json option list) list" where
  "pruneIds deletedIds m =
     filter (\<lambda>(k, ids). ids \<noteq> [])
       (map (\<lambda>(k, ids). (k, filter (\<lambda>j. \<not> list_ex (strictEq j) deletedIds) ids)) m)"

definition updateIndexesOnDelete :: "json option list \<Rightarrow> (string \<times> index) list
    \<Rightarrow> (string \<times> index) list" where
  "updateIndexesOnDelete deletedIds idxs =
     map (\<lambda>(name, idx). (name, idx\<lparr>idxMap := pruneIds deletedIds (idxMap idx)\<rparr>)) idxs"

subsection \<open>The full-text index\<close>

text \<open>
  \<^verbatim>\<open>_tokenizeText(text)\<close>: nothing unless the value is a string; otherwise the matches
  of \<^verbatim>\<open>/\b\p{L}[\p{L}\p{N}]*\b/gu\<close> in the lower-cased text, without repetitions
  (\<^verbatim>\<open>[...new Set(matches)]\<close> keeps the first occurrence of each).

  Among the code units below 256, \<^verbatim>\<open>\p{L}\<close> holds the ASCII letters, the two ordinal
  indicators, the micro sign and the accented letters; \<^verbatim>\<open>\p{N}\<close> the ASCII digits, the
  superscripts 1 to 3 and the three fractions. The word boundary \<^verbatim>\<open>\b\<close> is that of
  ASCII: it lies between a character of \<^verbatim>\<open>[A-Za-z0-9_]\<close> and one that is not (or an end
  of the text). \<^verbatim>\<open>toLowerCase\<close> moves the capital letters of both ranges.
\<close>

definition isLetter :: "char \<Rightarrow> bool" where
  "isLetter c =
     (let n = (of_char c :: nat)
      in (65 \<le> n \<and> n \<le> 90) \<or> (97 \<le> n \<and> n \<le> 122) \<or> n = 170 \<or> n = 181 \<or> n = 186
         \<or> (192 \<le> n \<and> n \<le> 214) \<or> (216 \<le> n \<and> n \<le> 246) \<or> 248 \<le> n)"

definition isNumber :: "char \<Rightarrow> bool" where
  "isNumber c =
     (let n = (of_char c :: nat)
      in (48 \<le> n \<and> n \<le> 57) \<or> n = 178 \<or> n = 179 \<or> n = 185 \<or> (188 \<le> n \<and> n \<le> 190))"

definition isWordChar :: "char \<Rightarrow> bool" where
  "isWordChar c =
     (let n = (of_char c :: nat)
      in (48 \<le> n \<and> n \<le> 57) \<or> (65 \<le> n \<and> n \<le> 90) \<or> (97 \<le> n \<and> n \<le> 122) \<or> n = 95)"

definition toLowerCase :: "string \<Rightarrow> string" where
  "toLowerCase t =
     map (\<lambda>c. let n = (of_char c :: nat)
              in if (65 \<le> n \<and> n \<le> 90) \<or> (192 \<le> n \<and> n \<le> 214) \<or> (216 \<le> n \<and> n \<le> 222)
                 then char_of (n + 32) else c) t"

fun uniq :: "'a list \<Rightarrow> 'a list" where
  "uniq [] = []"
| "uniq (x # xs) = x # uniq (filter (\<lambda>y. y \<noteq> x) xs)"

text \<open>
  The rest of a match, after a character \<open>prev\<close> already matched: the longest run of
  letters and digits that ends at a word boundary (the star is greedy and gives
  characters back until \<^verbatim>\<open>\b\<close> holds); \<open>None\<close> when no run does, not even the empty one.
\<close>

fun longestMatch :: "char \<Rightarrow> string \<Rightarrow> string option" where
  "longestMatch prev [] = (if isWordChar prev then Some [] else None)"
| "longestMatch prev (c # cs) =
     (case (if isLetter c \<or> isNumber c then longestMatch c cs else None) of
        Some m \<Rightarrow> Some (c # m)
      | None \<Rightarrow> if isWordChar prev \<noteq> isWordChar c then Some [] else None)"

text \<open>
  All matches, from left to right; \<open>prev\<close> is the character before the text, if any.
  A match starts at a letter with a word boundary before it; the search goes on after
  the match, or one character further when there is none.
\<close>

function wordMatches :: "char option \<Rightarrow> string \<Rightarrow> string list" where
  "wordMatches prev [] = []"
| "wordMatches prev (c # cs) =
     (if isLetter c \<and> (case prev of None \<Rightarrow> False | Some p \<Rightarrow> isWordChar p) \<noteq> isWordChar c
      then (case longestMatch c cs of
              Some m \<Rightarrow> (c # m) # wordMatches (Some (last (c # m))) (drop (length m) cs)
            | None \<Rightarrow> wordMatches (Some c) cs)
      else wordMatches (Some c) cs)"
  by pat_completeness auto
termination
  by (relation "measure (\<lambda>(p, t). length t)") auto

definition tokenizeText :: "json option \<Rightarrow> string list" where
  "tokenizeText v =
     (case v of Some (JStr t) \<Rightarrow> uniq (wordMatches None (toLowerCase t)) | _ \<Rightarrow> [])"

text \<open>
  The index maps a word to the object whose keys are the ids of the documents holding
  it (each with the value \<^verbatim>\<open>true\<close>); the model keeps the keys, in insertion order.
  An id used as a key is converted to a string.
\<close>

definition addPosting :: "string \<Rightarrow> string \<Rightarrow> (string \<times> string list) list
    \<Rightarrow> (string \<times> string list) list" where
  "addPosting key word fti =
     AList.update word
       (let ids = (case map_of fti word of Some ids \<Rightarrow> ids | None \<Rightarrow> [])
        in if key \<in> set ids then ids else ids @ [key]) fti"

definition indexFieldFullText :: "string \<Rightarrow> obj \<Rightarrow> (string \<times> string list) list \<Rightarrow> string
    \<Rightarrow> (string \<times> string list) list" where
  "indexFieldFullText key d fti field =
     (case getValueByDot d field of
        Some (JStr t) \<Rightarrow>
          foldl (\<lambda>acc word. addPosting key word acc) fti (tokenizeText (Some (JStr t)))
      | _ \<Rightarrow> fti)"

definition indexDocumentFullText :: "obj \<Rightarrow> string list \<Rightarrow> (string \<times> string list) list
    \<Rightarrow> (string \<times> string list) list" where
  "indexDocumentFullText d fs fti =
     (if \<not> truthyOpt (docId d) then fti
      else foldl (indexFieldFullText (propKey (docId d)) d) fti fs)"

text \<open>
  \<^verbatim>\<open>_removeDocumentFromFullTextIndex(docId)\<close>: the id leaves every word's keys, and a
  word left without keys is deleted.
\<close>

definition removeDocumentFromFullTextIndex :: "string \<Rightarrow> (string \<times> string list) list
    \<Rightarrow> (string \<times> string list) list" where
  "removeDocumentFromFullTextIndex key fti =
     concat (map (\<lambda>(word, ids).
                    if key \<in> set ids
                    then (if removeAll key ids = [] then [] else [(word, removeAll key ids)])
                    else [(word, ids)]) fti)"




definition visibleDoc :: "store \<Rightarrow> obj \<Rightarrow> bool" where
  "visibleDoc s d = (\<not> softDeleteEnabled s \<or> showDeleted s \<or> \<not> isDeleted d)"


subsection \<open>The query builder\<close>

definition resetQuery :: "store \<Rightarrow> store" where
  "resetQuery s =
     s\<lparr>wheres := [], limitCount := None, skipCount := 0, orderByField := None,
       orderByDirection := ''asc'', showDeleted := False\<rparr>"

definition where_cond :: "string \<Rightarrow> string \<Rightarrow> json option \<Rightarrow> store \<Rightarrow> store" where
  "where_cond field operator v s = s\<lparr>wheres := wheres s @ [Cond field operator v]\<rparr>"

definition orWhere :: "(string \<times> string \<times> json option) list \<Rightarrow> store \<Rightarrow> store" where
  "orWhere conditions s = s\<lparr>wheres := wheres s @ [OrGroup conditions]\<rparr>"

definition whereIn :: "string \<Rightarrow> json option \<Rightarrow> store \<Rightarrow> store" where
  "whereIn field vs s = s\<lparr>wheres := wheres s @ [Cond field ''in'' vs]\<rparr>"

definition whereLike :: "string \<Rightarrow> json option \<Rightarrow> store \<Rightarrow> store" where
  "whereLike field v s = s\<lparr>wheres := wheres s @ [Cond field ''like'' v]\<rparr>"

definition limit_q :: "int \<Rightarrow> store \<Rightarrow> store" where
  "limit_q n s = s\<lparr>limitCount := Some n\<rparr>"

definition skip_q :: "int \<Rightarrow> store \<Rightarrow> store" where
  "skip_q n s = s\<lparr>skipCount := n\<rparr>"


definition enableSoftDeletes :: "bool \<Rightarrow> store \<Rightarrow> store" where
  "enableSoftDeletes enable s = s\<lparr>softDeleteEnabled := enable\<rparr>"

definition withTrashed :: "store \<Rightarrow> store" where
  "withTrashed s = s\<lparr>showDeleted := True\<rparr>"

definition onlyDeleted :: "store \<Rightarrow> store" where
  "onlyDeleted s = s\<lparr>showDeleted := True\<rparr>"

definition onChange :: "nat \<Rightarrow> store \<Rightarrow> store" where
  "onChange cb s = s\<lparr>changeListeners := changeListeners s @ [cb]\<rparr>"

definition registerValidationCallback :: "(obj \<Rightarrow> bool) \<Rightarrow> store \<Rightarrow> store" where
  "registerValidationCallback cb s = s\<lparr>validationCallbacks := validationCallbacks s @ [cb]\<rparr>"

subsection \<open>Evaluating a query\<close>

text \<open>
  \<^verbatim>\<open>a == b\<close>: \<^verbatim>\<open>null\<close> and \<^verbatim>\<open>undefined\<close> equal each other and nothing else; two
  values of one primitive type are compared as they are; two objects by reference
  (never identical here); operands of different types are coerced by the platform.
\<close>

fun typeTag :: "json \<Rightarrow> nat" where
  "typeTag JNull = 0"
| "typeTag (JBool b) = 1"
| "typeTag (JNum n) = 2"
| "typeTag (JStr t) = 3"
| "typeTag (JArr xs) = 4"
| "typeTag (JObj kvs) = 4"

definition looseEq :: "platform \<Rightarrow> json option \<Rightarrow> json option \<Rightarrow> bool" where
  "looseEq env a b =
     (if nullish a \<or> nullish b then nullish a \<and> nullish b
      else (case (a, b) of
              (Some x, Some y) \<Rightarrow>
                if typeTag x = 4 \<and> typeTag y = 4 then False
                else if typeTag x = typeTag y then x = y
                else looseEqMixed env x y
            | _ \<Rightarrow> False))"

text \<open>
  \<^verbatim>\<open>a < b\<close>: \<open>None\<close> is the undefined outcome (a NaN operand). Two numbers and two
  strings (by code units) are compared here, the other operands by the platform.
\<close>

fun strLess :: "string \<Rightarrow> string \<Rightarrow> bool" where
  "strLess [] [] = False"
| "strLess [] (y # ys) = True"
| "strLess (x # xs) [] = False"
| "strLess (x # xs) (y # ys) =
     (if (of_char x :: nat) < of_char y then True
      else if (of_char y :: nat) < of_char x then False
      else strLess xs ys)"

definition jsLessThan :: "platform \<Rightarrow> json option \<Rightarrow> json option \<Rightarrow> bool option" where
  "jsLessThan env a b =
     (case (a, b) of
        (Some (JNum x), Some (JNum y)) \<Rightarrow> Some (x < y)
      | (Some (JStr x), Some (JStr y)) \<Rightarrow> Some (strLess x y)
      | _ \<Rightarrow> lessThanMixed env a b)"

fun includesStr :: "string \<Rightarrow> string \<Rightarrow> bool" where
  "includesStr needle [] = (needle = [])"
| "includesStr needle (c # cs) = (take (length needle) (c # cs) = needle \<or> includesStr needle cs)"

text \<open>\<^verbatim>\<open>_testCondition(doc, {field, operator, value})\<close>.\<close>

definition testCondition :: "platform \<Rightarrow> obj \<Rightarrow> string \<times> string \<times> json option \<Rightarrow> bool" where
  "testCondition env d c =
     (case c of (field, operator, v) \<Rightarrow>
        (let docValue = getValueByDot d field in
         if operator = ''='' \<or> operator = ''=='' then looseEq env docValue v
         else if operator = ''!='' \<or> operator = ''<>'' then \<not> looseEq env docValue v
         else if operator = ''>'' then jsLessThan env v docValue = Some True
         else if operator = ''>='' then jsLessThan env docValue v = Some False
         else if operator = ''<'' then jsLessThan env docValue v = Some True
         else if operator = ''<='' then jsLessThan env v docValue = Some False
         else if operator = ''in'' then
           (case v of Some (JArr xs) \<Rightarrow> list_ex (\<lambda>x. strictEq (Some x) docValue) xs | _ \<Rightarrow> False)
         else if operator = ''like'' then
           (case (docValue, v) of
              (Some (JStr a), Some (JStr b)) \<Rightarrow> includesStr (toLowerCase b) (toLowerCase a)
            | _ \<Rightarrow> False)
         else False))"

text \<open>One element of \<^verbatim>\<open>this.wheres\<close>: a condition, or a group of which one must hold.\<close>

fun matchesCond :: "platform \<Rightarrow> obj \<Rightarrow> cond \<Rightarrow> bool" where
  "matchesCond env d (Cond field operator v) = testCondition env d (field, operator, v)"
| "matchesCond env d (OrGroup cs) = list_ex (testCondition env d) cs"

definition matchesAll :: "platform \<Rightarrow> cond list \<Rightarrow> obj \<Rightarrow> bool" where
  "matchesAll env ws d = list_all (matchesCond env d) ws"

text \<open>
  \<^verbatim>\<open>explainQuery().usedIndexes\<close>: the names of the indexes one of whose fields a
  condition mentions.
\<close>

fun condFields :: "cond \<Rightarrow> string list" where
  "condFields (Cond field operator v) = [field]"
| "condFields (OrGroup cs) = map fst cs"

definition usedIndexes :: "store \<Rightarrow> string list" where
  "usedIndexes s =
     map fst (filter (\<lambda>(name, idx). list_ex (\<lambda>f. f \<in> set (concat (map condFields (wheres s))))
                                        (idxFields idx))
                (indexes s))"

definition softDeleteFilter :: "store \<Rightarrow> obj list \<Rightarrow> obj list" where
  "softDeleteFilter s ds =
     (if softDeleteEnabled s \<and> \<not> showDeleted s then filter (\<lambda>d. \<not> isDeleted d) ds else ds)"

text \<open>
  Step 2 of \<^verbatim>\<open>get\<close>: the first condition with \<^verbatim>\<open>=\<close> or \<^verbatim>\<open>==\<close> whose field is the name
  of a used index; when the index of that name has an entry for the serialized value,
  the documents are filtered by the entry's ids and the condition is dropped.
\<close>

fun indexEligible :: "string list \<Rightarrow> cond \<Rightarrow> bool" where
  "indexEligible used (Cond field operator v) =
     (field \<in> set used \<and> (operator = ''='' \<or> operator = ''==''))"
| "indexEligible used (OrGroup cs) = False"

definition potentialIndexFilter :: "store \<Rightarrow> cond option" where
  "potentialIndexFilter s =
     (if wheres s \<noteq> [] \<and> usedIndexes s \<noteq> []
      then find (indexEligible (usedIndexes s)) (wheres s) else None)"

definition indexStage :: "platform \<Rightarrow> store \<Rightarrow> obj list \<Rightarrow> obj list \<times> cond list" where
  "indexStage env s results =
     (case potentialIndexFilter s of
        Some (Cond field operator v) \<Rightarrow>
          (case map_of (indexes s) field of
             Some idx \<Rightarrow>
               (case map_of (idxMap idx) (serializeIndexValue env v) of
                  Some ids \<Rightarrow>
                    (filter (\<lambda>d. list_ex (\<lambda>i. strictEq i (docId d)) ids) results,
                     remove1 (Cond field operator v) (wheres s))
                | None \<Rightarrow> (results, wheres s))
           | None \<Rightarrow> (results, wheres s))
      | _ \<Rightarrow> (results, wheres s))"

text \<open>Step 4 of \<^verbatim>\<open>get\<close>: the comparator handed to \<^verbatim>\<open>Array.prototype.sort\<close>.\<close>

definition compareDocs :: "platform \<Rightarrow> string \<Rightarrow> string \<Rightarrow> obj \<Rightarrow> obj \<Rightarrow> int" where
  "compareDocs env field direction a b =
     (let valA = getValueByDot a field; valB = getValueByDot b field in
      if strictEq valA valB then 0
      else if nullish valA then (if direction = ''asc'' then 1 else - 1)
      else if nullish valB then (if direction = ''asc'' then - 1 else 1)
      else (case (valA, valB) of
              (Some (JStr x), Some (JStr y)) \<Rightarrow>
                if direction = ''asc'' then localeCompare env x y else localeCompare env y x
            | _ \<Rightarrow>
                if direction = ''asc''
                then (if jsLessThan env valA valB = Some True then - 1 else 1)
                else (if jsLessThan env valB valA = Some True then - 1 else 1)))"

fun insertBy :: "('a \<Rightarrow> 'a \<Rightarrow> int) \<Rightarrow> 'a \<Rightarrow> 'a list \<Rightarrow> 'a list" where
  "insertBy cmp x [] = [x]"
| "insertBy cmp x (y # ys) = (if cmp x y \<le> 0 then x # y # ys else y # insertBy cmp x ys)"

definition sortBy :: "('a \<Rightarrow> 'a \<Rightarrow> int) \<Rightarrow> 'a list \<Rightarrow> 'a list" where
  "sortBy cmp xs = foldr (insertBy cmp) xs []"

text \<open>
  \<^verbatim>\<open>Array.prototype.sort(cmp)\<close>. The language fixes the result when \<open>cmp\<close> is a
  consistent comparator on the elements (ECMAScript, Array.prototype.sort: \<open>cmp a a\<close>
  is zero; being zero is symmetric and transitive; being negative is transitive, and
  so is being positive): the result is then sorted and stable, which makes it the
  result of the stable insertion sort. For any other comparator the order is left to
  the engine.
\<close>

definition consistentOn :: "('a \<Rightarrow> 'a \<Rightarrow> int) \<Rightarrow> 'a list \<Rightarrow> bool" where
  "consistentOn cmp xs =
     list_all (\<lambda>a. cmp a a = 0 \<and>
        list_all (\<lambda>b. (cmp a b = 0 \<longrightarrow> cmp b a = 0) \<and>
           list_all (\<lambda>c. (cmp a b = 0 \<and> cmp b c = 0 \<longrightarrow> cmp a c = 0)
                        \<and> (cmp a b < 0 \<and> cmp b c < 0 \<longrightarrow> cmp a c < 0)
                        \<and> (cmp a b > 0 \<and> cmp b c > 0 \<longrightarrow> cmp a c > 0)) xs) xs) xs"

definition arraySort :: "platform \<Rightarrow> (obj \<Rightarrow> obj \<Rightarrow> int) \<Rightarrow> obj list \<Rightarrow> obj list" where
  "arraySort env cmp xs = (if consistentOn cmp xs then sortBy cmp xs else engineSort env cmp xs)"

definition applyOrder :: "platform \<Rightarrow> store \<Rightarrow> obj list \<Rightarrow> obj list" where
  "applyOrder env s results =
     (case orderByField s of
        None \<Rightarrow> results
      | Some field \<Rightarrow>
          if field = [] then results
          else arraySort env (compareDocs env field (orderByDirection s)) results)"

text \<open>
  Step 5: \<^verbatim>\<open>slice(skip)\<close> when the skip count is positive, then \<^verbatim>\<open>slice(0, limit)\<close>
  when a limit is set (a negative limit counts from the end).
\<close>

definition applySkipLimit :: "store \<Rightarrow> obj list \<Rightarrow> obj list" where
  "applySkipLimit s results =
     (let skipped = (if skipCount s > 0 then drop (nat (skipCount s)) results else results)
      in case limitCount s of
           None \<Rightarrow> skipped
         | Some l \<Rightarrow>
             if l \<ge> 0 then take (nat l) skipped
             else take (length skipped - nat (- l)) skipped)"

text \<open>The documents \<^verbatim>\<open>get\<close> selects in steps 1 to 3, before ordering.\<close>

definition selectDocs :: "platform \<Rightarrow> store \<Rightarrow> obj list" where
  "selectDocs env s =
     (case indexStage env s (softDeleteFilter s (deepClone (data s))) of
        (results, ws) \<Rightarrow> filter (matchesAll env ws) results)"

definition get_docs :: "platform \<Rightarrow> store \<Rightarrow> obj list \<times> store" where
  "get_docs env s =
     (let s1 = loadIndexes env (loadData env s)
      in (map (decryptDocument env s1) (applySkipLimit s1 (applyOrder env s1 (selectDocs env s1))),
          resetQuery s1))"

definition findOne :: "platform \<Rightarrow> store \<Rightarrow> obj option \<times> store" where
  "findOne env s =
     (case get_docs env s of (results, s') \<Rightarrow>
        ((case results of [] \<Rightarrow> None | d # ds \<Rightarrow> Some d), s'))"

definition findById :: "platform \<Rightarrow> json option \<Rightarrow> store \<Rightarrow> obj option \<times> store" where
  "findById env i s =
     (let s1 = loadData env s
      in (map_option (decryptDocument env s1)
            (find (\<lambda>d. strictEq (docId d) i \<and> visibleDoc s1 d) (data s1)),
          resetQuery s1))"

text \<open>
  \<^verbatim>\<open>count\<close>: the soft-delete filter and the conditions, without the index step; the
  query state is reset before it returns.
\<close>

definition count_docs :: "platform \<Rightarrow> store \<Rightarrow> nat \<times> store" where
  "count_docs env s =
     (let s1 = loadData env s
      in (length (filter (matchesAll env (wheres s1)) (softDeleteFilter s1 (deepClone (data s1)))),
          resetQuery s1))"

text \<open>\<^verbatim>\<open>paginate({page, perPage})\<close>.\<close>

record pageResult =
  pgData :: "obj list"
  currentPage :: int
  perPage :: int
  totalCount :: int
  totalPages :: int
  hasMorePages :: bool
  nextPage :: "int option"
  prevPage :: "int option"

definition paginate :: "platform \<Rightarrow> int \<Rightarrow> int \<Rightarrow> store \<Rightarrow> pageResult \<times> store" where
  "paginate env page0 perPage0 s =
     (let pg = (if page0 < 1 then 1 else page0);
          pp = (if perPage0 < 1 then 1 else perPage0)
      in case count_docs env s of (n, s1) \<Rightarrow>
           (let total = int n;
                pages = - ((- total) div pp)
            in case get_docs env (skip_q ((pg - 1) * pp) (limit_q pp s1)) of
                 (docs, s2) \<Rightarrow>
                   (\<lparr>pgData = docs, currentPage = pg, perPage = pp, totalCount = total,
                     totalPages = pages, hasMorePages = (pg < pages),
                     nextPage = (if pg < pages then Some (pg + 1) else None),
                     prevPage = (if pg > 1 then Some (pg - 1) else None)\<rparr>, s2)))"

subsection \<open>Inserting\<close>

text \<open>
  What \<^verbatim>\<open>insert\<close> and \<^verbatim>\<open>insertMany\<close> do to a validated document before storing it:
  an id unless it has a truthy one, the two timestamps, the first revision. Each call
  of \<^verbatim>\<open>uuidv4\<close> and of the clock consumes one outcome.
\<close>

definition prepareInsert :: "platform \<Rightarrow> obj \<Rightarrow> store \<Rightarrow> obj option \<times> store" where
  "prepareInsert env doc s =
     (let withId = (if truthyOpt (docId doc) then doc
                    else AList.update ''_id'' (JStr (uuidv4 env (uuidCount s))) doc);
          n = (if truthyOpt (docId doc) then uuidCount s else Suc (uuidCount s));
          stamped = addTimestamps (nowISO env (clock s)) True withId
      in (addRevision (uuidv4 env n) (nowISO env (Suc (clock s))) ''insert'' stamped,
          s\<lparr>uuidCount := Suc n, clock := Suc (Suc (clock s))\<rparr>))"

text \<open>The stored document is appended and added to both indexes.\<close>

definition storeDoc :: "platform \<Rightarrow> obj \<Rightarrow> store \<Rightarrow> store" where
  "storeDoc env encryptedDoc s =
     s\<lparr>data := data s @ [encryptedDoc],
       indexes := updateIndexesOnInsert env encryptedDoc (indexes s),
       fullTextIndex := indexDocumentFullText encryptedDoc (fullTextIndexedFields s) (fullTextIndex s)\<rparr>"

text \<open>
  After a mutation: outside a transaction the three files are written; inside one the
  operation is appended to the transaction log.
\<close>

definition persistOrLog :: "platform \<Rightarrow> logEntry \<Rightarrow> store \<Rightarrow> store" where
  "persistOrLog env entry s =
     (if \<not> inTransaction s then saveAll env s
      else s\<lparr>transactionLog := transactionLog s @ [entry]\<rparr>)"

definition insert_doc :: "platform \<Rightarrow> obj \<Rightarrow> store \<Rightarrow> (error + obj) \<times> store" where
  "insert_doc env doc s =
     (let s1 = loadAll env s in
      if inTransaction s1 \<and> truthy (transactionLock s1) then (Inl TransactionLock, s1)
      else if \<not> validateDocument s1 (deepClone doc) then (Inl ValidationFailed, s1)
      else (case prepareInsert env (deepClone doc) s1 of
              (None, s2) \<Rightarrow> (Inl JsTypeError, s2)
            | (Some newDoc, s2) \<Rightarrow>
                (let encryptedDoc = encryptDocument env s2 newDoc;
                     s3 = persistOrLog env (LogInsert encryptedDoc) (storeDoc env encryptedDoc s2);
                     s4 = triggerChange (decryptDocument env s3 encryptedDoc) ''insert'' s3
                 in (Inr (decryptDocument env s4 encryptedDoc), s4))))"

text \<open>
  \<^verbatim>\<open>insertMany\<close>: the same for each document in turn; a document that fails stops the
  loop with the earlier ones stored in memory. The files are written (or the log
  entry appended) and the listeners called once the loop is through.
\<close>

fun insertLoop :: "platform \<Rightarrow> obj list \<Rightarrow> obj list \<Rightarrow> store \<Rightarrow> (error + obj list) \<times> store" where
  "insertLoop env [] insertedDocs s = (Inr insertedDocs, s)"
| "insertLoop env (doc # docs) insertedDocs s =
     (if \<not> validateDocument s (deepClone doc) then (Inl ValidationFailed, s)
      else (case prepareInsert env (deepClone doc) s of
              (None, s2) \<Rightarrow> (Inl JsTypeError, s2)
            | (Some newDoc, s2) \<Rightarrow>
                (let encryptedDoc = encryptDocument env s2 newDoc
                 in insertLoop env docs (insertedDocs @ [decryptDocument env s2 encryptedDoc])
                      (storeDoc env encryptedDoc s2))))"

definition insertMany :: "platform \<Rightarrow> obj list \<Rightarrow> store \<Rightarrow> (error + obj list) \<times> store" where
  "insertMany env docs s =
     (let s1 = loadAll env s in
      if inTransaction s1 \<and> truthy (transactionLock s1) then (Inl TransactionLock, s1)
      else (case insertLoop env docs [] s1 of
              (Inl e, s2) \<Rightarrow> (Inl e, s2)
            | (Inr insertedDocs, s2) \<Rightarrow>
                (let s3 = persistOrLog env
                            (LogInsertMany (map (encryptDocument env s2) insertedDocs)) s2
                 in (Inr insertedDocs, triggerChanges insertedDocs ''insert'' s3))))"

subsection \<open>Updating\<close>

text \<open>
  \<^verbatim>\<open>update(query, updates)\<close> runs \<^verbatim>\<open>get()\<close> on the current query state and goes through
  the documents it returned. For each one, in this order: the lock test (a throw);
  the lookup of the stored document by \<^verbatim>\<open>d._id === doc._id\<close> (none: next document);
  the patch, the timestamp and the revision, written into the stored document;
  the validation of the result (a throw); re-encryption; both indexes. A throw leaves
  the store as the loop has made it so far.
\<close>

fun findIndex :: "('a \<Rightarrow> bool) \<Rightarrow> 'a list \<Rightarrow> nat option" where
  "findIndex P [] = None"
| "findIndex P (x # xs) = (if P x then Some 0 else map_option Suc (findIndex P xs))"

text \<open>
  The test \<^verbatim>\<open>this.inTransaction && this.transactionLock && this.transactionLock !== doc._id\<close>
  of \<^verbatim>\<open>update\<close> and \<^verbatim>\<open>delete\<close>.
\<close>

definition lockedFor :: "store \<Rightarrow> obj \<Rightarrow> bool" where
  "lockedFor s d =
     (inTransaction s \<and> truthy (transactionLock s)
      \<and> \<not> strictEq (Some (transactionLock s)) (docId d))"

definition updateOne :: "platform \<Rightarrow> obj \<Rightarrow> obj \<Rightarrow> store \<Rightarrow> (error + obj option) \<times> store" where
  "updateOne env updates doc s =
     (if lockedFor s doc then (Inl TransactionLock, s)
      else (case findIndex (\<lambda>d. strictEq (docId d) (docId doc)) (data s) of
              None \<Rightarrow> (Inr None, s)
            | Some docIndex \<Rightarrow>
                (let oldDoc = deepClone doc;
                     stamped = addTimestamps (nowISO env (clock s)) False
                                 (deepMerge (data s ! docIndex) updates);
                     s1 = s\<lparr>uuidCount := Suc (uuidCount s), clock := Suc (Suc (clock s))\<rparr>
                 in case addRevision (uuidv4 env (uuidCount s)) (nowISO env (Suc (clock s)))
                           ''update'' stamped of
                      None \<Rightarrow> (Inl JsTypeError, s1\<lparr>data := (data s)[docIndex := stamped]\<rparr>)
                    | Some revised \<Rightarrow>
                        if \<not> validateDocument s1 (decryptDocument env s1 revised)
                        then (Inl ValidationFailed, s1\<lparr>data := (data s)[docIndex := revised]\<rparr>)
                        else
                          (let current = (case encryptionKey s1 of
                                            None \<Rightarrow> revised
                                          | Some k \<Rightarrow>
                                              if k = [] then revised
                                              else encryptDocument env s1
                                                     (decryptDocument env s1 revised))
                           in (Inr (Some (decryptDocument env s1 current)),
                               s1\<lparr>data := (data s)[docIndex := current],
                                  indexes := updateIndexesOnUpdate env oldDoc current (indexes s),
                                  fullTextIndex :=
                                    indexDocumentFullText current (fullTextIndexedFields s)
                                      (removeDocumentFromFullTextIndex (propKey (docId oldDoc))
                                         (fullTextIndex s))\<rparr>)))))"

fun updateLoop :: "platform \<Rightarrow> obj \<Rightarrow> obj list \<Rightarrow> obj list \<Rightarrow> store \<Rightarrow> (error + obj list) \<times> store" where
  "updateLoop env updates [] updatedDocs s = (Inr updatedDocs, s)"
| "updateLoop env updates (doc # docs) updatedDocs s =
     (case updateOne env updates doc s of
        (Inl e, s1) \<Rightarrow> (Inl e, s1)
      | (Inr None, s1) \<Rightarrow> updateLoop env updates docs updatedDocs s1
      | (Inr (Some updated), s1) \<Rightarrow> updateLoop env updates docs (updatedDocs @ [updated]) s1)"

definition update_docs :: "platform \<Rightarrow> obj \<Rightarrow> store \<Rightarrow> (error + obj list) \<times> store" where
  "update_docs env updates s =
     (case get_docs env (loadAll env s) of
        (matchingDocs, s1) \<Rightarrow>
          (case updateLoop env updates matchingDocs [] s1 of
             (Inl e, s2) \<Rightarrow> (Inl e, s2)
           | (Inr updatedDocs, s2) \<Rightarrow>
               (let s3 = persistOrLog env (LogUpdate (map (encryptDocument env s2) updatedDocs)) s2
                in (Inr updatedDocs, resetQuery (triggerChanges updatedDocs ''update'' s3)))))"

subsection \<open>Deleting\<close>

text \<open>
  \<^verbatim>\<open>delete(_id)\<close>. With soft deletes the first live document of that id is marked; in
  the source the tests of the lock inside the two branches come after the guard at
  the top of the method, and in the hard branch after the \<^verbatim>\<open>splice\<close>.
\<close>

definition finishDelete :: "platform \<Rightarrow> json option \<Rightarrow> obj \<Rightarrow> store \<Rightarrow> (error + bool) \<times> store" where
  "finishDelete env i deletedDoc s =
     (let s1 = persistOrLog env (LogDelete i (softDeleteEnabled s)) s
      in (Inr True,
          triggerChange (decryptDocument env s1 (deepClone deletedDoc))
            (if softDeleteEnabled s1 then ''soft_delete'' else ''delete'') s1))"

definition delete_doc :: "platform \<Rightarrow> json option \<Rightarrow> store \<Rightarrow> (error + bool) \<times> store" where
  "delete_doc env i s =
     (let s1 = loadAll env s in
      if inTransaction s1 \<and> truthy (transactionLock s1) then (Inl TransactionLock, s1)
      else if softDeleteEnabled s1 then
        (case findIndex (\<lambda>d. strictEq (docId d) i \<and> \<not> isDeleted d) (data s1) of
           None \<Rightarrow> (Inr False, s1)
         | Some deleteIndex \<Rightarrow>
             (let deletedDoc = deepClone (data s1 ! deleteIndex) in
              if lockedFor s1 deletedDoc then (Inl TransactionLock, s1)
              else
                (let marked = AList.update ''_updated'' (JStr (nowISO env (clock s1)))
                                (AList.update ''_deleted'' (JBool True) (data s1 ! deleteIndex));
                     s2 = s1\<lparr>uuidCount := Suc (uuidCount s1), clock := Suc (Suc (clock s1))\<rparr>
                 in case addRevision (uuidv4 env (uuidCount s1)) (nowISO env (Suc (clock s1)))
                           ''soft_delete'' marked of
                      None \<Rightarrow> (Inl JsTypeError, s2\<lparr>data := (data s1)[deleteIndex := marked]\<rparr>)
                    | Some revised \<Rightarrow>
                        finishDelete env i deletedDoc
                          (s2\<lparr>data := (data s1)[deleteIndex := revised]\<rparr>))))
      else
        (case findIndex (\<lambda>d. strictEq (docId d) i) (data s1) of
           None \<Rightarrow> (Inr False, s1)
         | Some deleteIndex \<Rightarrow>
             (let deletedDoc = data s1 ! deleteIndex;
                  s2 = s1\<lparr>data := take deleteIndex (data s1) @ drop (Suc deleteIndex) (data s1)\<rparr>
              in if lockedFor s2 deletedDoc then (Inl TransactionLock, s2)
                 else finishDelete env i deletedDoc
                        (s2\<lparr>indexes := updateIndexesOnDelete [docId deletedDoc] (indexes s2),
                            fullTextIndex :=
                              removeDocumentFromFullTextIndex (propKey (docId deletedDoc))
                                (fullTextIndex s2)\<rparr>))))"

subsection \<open>Transactions\<close>

text \<open>
  \<^verbatim>\<open>beginTransaction(_id = null)\<close>: Node.js only, and not inside a transaction. The
  flag, the lock and an empty log are set, the three files are loaded, and deep copies
  of the collection and of both indexes are kept (\<^verbatim>\<open>_deepClone\<close>: in the copy of the
  secondary indexes an \<^verbatim>\<open>undefined\<close> id has become \<^verbatim>\<open>null\<close>).
\<close>

definition beginTransaction :: "platform \<Rightarrow> json \<Rightarrow> store \<Rightarrow> (error + unit) \<times> store" where
  "beginTransaction env i s =
     (if \<not> isNode env then (Inl NotNode, s)
      else if inTransaction s then (Inl TransactionState, s)
      else
        (let s1 = loadAll env (s\<lparr>inTransaction := True, transactionLock := i, transactionLog := []\<rparr>)
         in (Inr (),
             s1\<lparr>initialDataState := Some (deepClone (data s1)),
                initialIndexesState := Some (jsonIndexes (indexes s1)),
                initialFullTextIndexState := Some (deepClone (fullTextIndex s1))\<rparr>)))"

definition endTransaction :: "store \<Rightarrow> store" where
  "endTransaction s =
     s\<lparr>inTransaction := False, transactionLock := JNull, transactionLog := [],
       initialDataState := None, initialIndexesState := None,
       initialFullTextIndexState := None\<rparr>"

text \<open>
  \<^verbatim>\<open>commit()\<close>: the three files are written, then \<^verbatim>\<open>_triggerChange\<close> is called for every
  entry of the log, in order, and only then \<^verbatim>\<open>_endTransaction\<close> runs (in the
  \<^verbatim>\<open>finally\<close> block). A delete is replayed with the document \<^verbatim>\<open>{_id: log._id}\<close>.
\<close>

fun replayEntry :: "platform \<Rightarrow> logEntry \<Rightarrow> store \<Rightarrow> store" where
  "replayEntry env (LogInsert d) s = triggerChange (decryptDocument env s (deepClone d)) ''insert'' s"
| "replayEntry env (LogInsertMany ds) s =
     triggerChanges (map (decryptDocument env s) ds) ''insert'' s"
| "replayEntry env (LogUpdate ds) s =
     triggerChanges (map (decryptDocument env s) ds) ''update'' s"
| "replayEntry env (LogDelete i isSoftDelete) s =
     triggerChange (case i of None \<Rightarrow> [] | Some v \<Rightarrow> [(''_id'', v)])
       (if isSoftDelete then ''soft_delete'' else ''delete'') s"

definition commit :: "platform \<Rightarrow> store \<Rightarrow> (error + unit) \<times> store" where
  "commit env s =
     (if \<not> inTransaction s then (Inl TransactionState, s)
      else
        (let s1 = saveAll env s
         in (Inr (), endTransaction (foldl (\<lambda>acc entry. replayEntry env entry acc) s1
                                       (transactionLog s1)))))"

text \<open>
  \<^verbatim>\<open>rollback()\<close>: the three copies taken at the beginning come back (they exist in
  every state that \<^verbatim>\<open>beginTransaction\<close> has made active), the files are written, and the
  transaction ends.
\<close>

definition rollback :: "platform \<Rightarrow> store \<Rightarrow> (error + unit) \<times> store" where
  "rollback env s =
     (if \<not> inTransaction s then (Inl TransactionState, s)
      else
        (Inr (),
         endTransaction
           (saveAll env
              (s\<lparr>data := (case initialDataState s of Some ds \<Rightarrow> ds | None \<Rightarrow> []),
                 indexes := (case initialIndexesState s of Some ix \<Rightarrow> ix | None \<Rightarrow> []),
                 fullTextIndex :=
                   (case initialFullTextIndexState s of Some ft \<Rightarrow> ft | None \<Rightarrow> [])\<rparr>))))"

subsection \<open>A new store and a platform\<close>

text \<open>The constructor's state, over a directory without files.\<close>

definition newStore :: store where
  "newStore =
     \<lparr>data = [], dataLoaded = False, indexes = [], indexesLoaded = False,
      fullTextIndex = [], fullTextIndexLoaded = False, fullTextIndexedFields = [],
      wheres = [], limitCount = None, skipCount = 0, orderByField = None,
      orderByDirection = ''asc'', validationCallbacks = [], transactionLock = JNull,
      inTransaction = False, transactionLog = [], softDeleteEnabled = False,
      showDeleted = False, changeListeners = [], encryptionKey = None, encryptedFields = [],
      initialDataState = None, initialIndexesState = None, initialFullTextIndexState = None,
      fileData = None, fileIndexes = None, fileFullTextIndex = None, delivered = [],
      uuidCount = 0, clock = 0\<rparr>"

text \<open>
  The platform of the examples is a Node.js whose ids and times are numbered. Its
  \<^verbatim>\<open>btoa\<close> is Base64 and its \<^verbatim>\<open>atob\<close> the forgiving decoder of the platform standard
  (white space is dropped, padding is optional, a character outside the alphabet or a
  single left-over character is an error).
\<close>

definition base64Alphabet :: string where
  "base64Alphabet = ''ABCDEFGHIJKLMNOPQRSTUVWXYZabcdefghijklmnopqrstuvwxyz0123456789+/''"

fun base64Encode :: "nat list \<Rightarrow> string" where
  "base64Encode [] = []"
| "base64Encode [a] =
     [base64Alphabet ! (a div 4), base64Alphabet ! (a mod 4 * 16), CHR ''='', CHR ''='']"
| "base64Encode [a, b] =
     [base64Alphabet ! (a div 4), base64Alphabet ! (a mod 4 * 16 + b div 16),
      base64Alphabet ! (b mod 16 * 4), CHR ''='']"
| "base64Encode (a # b # c # rest) =
     [base64Alphabet ! (a div 4), base64Alphabet ! (a mod 4 * 16 + b div 16),
      base64Alphabet ! (b mod 16 * 4 + c div 64), base64Alphabet ! (c mod 64)]
     @ base64Encode rest"

fun base64Decode :: "nat list \<Rightarrow> nat list" where
  "base64Decode (a # b # c # d # rest) =
     [a * 4 + b div 16, b mod 16 * 16 + c div 4, c mod 4 * 64 + d] @ base64Decode rest"
| "base64Decode [a, b, c] = [a * 4 + b div 16, b mod 16 * 16 + c div 4]"
| "base64Decode [a, b] = [a * 4 + b div 16]"
| "base64Decode rest = []"

definition nodeBtoa :: "string \<Rightarrow> string" where
  "nodeBtoa t = base64Encode (map of_char t)"

definition nodeAtob :: "string \<Rightarrow> string option" where
  "nodeAtob t =
     (let d = filter (\<lambda>c. (of_char c :: nat) \<notin> {9, 10, 12, 13, 32}) t;
          n = length d;
          d1 = (if n mod 4 = 0 \<and> 2 \<le> n \<and> drop (n - 2) d = ''==''
                then take (n - 2) d
                else if n mod 4 = 0 \<and> 1 \<le> n \<and> drop (n - 1) d = ''=''
                then take (n - 1) d else d)
      in if length d1 mod 4 = 1 \<or> \<not> list_all (\<lambda>c. c \<in> set base64Alphabet) d1 then None
         else Some (map char_of
                      (base64Decode
                         (List.map_filter (\<lambda>c. findIndex (\<lambda>x. x = c) base64Alphabet) d1))))"

text \<open>
  Its \<^verbatim>\<open>JSON.stringify\<close> is the compact form. Its \<^verbatim>\<open>JSON.parse\<close> reads the three
  literals and the integers, and takes every other text for no JSON text: the examples
  parse nothing else.
\<close>

definition hexDigit :: "nat \<Rightarrow> char" where
  "hexDigit n = ''0123456789abcdef'' ! n"

definition escapeChar :: "char \<Rightarrow> string" where
  "escapeChar c =
     (let n = (of_char c :: nat)
      in if n = 34 then [CHR 0x5C, CHR 0x22]
         else if n = 92 then [CHR 0x5C, CHR 0x5C]
         else if n = 8 then CHR 0x5C # ''b''
         else if n = 9 then CHR 0x5C # ''t''
         else if n = 10 then CHR 0x5C # ''n''
         else if n = 12 then CHR 0x5C # ''f''
         else if n = 13 then CHR 0x5C # ''r''
         else if n < 32 then CHR 0x5C # ''u00'' @ [hexDigit (n div 16), hexDigit (n mod 16)]
         else [c])"

definition quoteString :: "string \<Rightarrow> string" where
  "quoteString t = CHR 0x22 # concat (map escapeChar t) @ [CHR 0x22]"

fun stringifyJson :: "json \<Rightarrow> string"
  and stringifyElements :: "json list \<Rightarrow> string"
  and stringifyMembers :: "(string \<times> json) list \<Rightarrow> string" where
  "stringifyJson JNull = ''null''"
| "stringifyJson (JBool b) = (if b then ''true'' else ''false'')"
| "stringifyJson (JNum n) = showInt n"
| "stringifyJson (JStr t) = quoteString t"
| "stringifyJson (JArr xs) = ''['' @ stringifyElements xs @ '']''"
| "stringifyJson (JObj kvs) = ''{'' @ stringifyMembers kvs @ ''}''"
| "stringifyElements [] = []"
| "stringifyElements [x] = stringifyJson x"
| "stringifyElements (x # y # ys) = stringifyJson x @ '','' @ stringifyElements (y # ys)"
| "stringifyMembers [] = []"
| "stringifyMembers [(k, v)] = quoteString k @ '':'' @ stringifyJson v"
| "stringifyMembers ((k, v) # m # ms) =
     quoteString k @ '':'' @ stringifyJson v @ '','' @ stringifyMembers (m # ms)"

definition isDigit :: "char \<Rightarrow> bool" where
  "isDigit c = (let n = (of_char c :: nat) in 48 \<le> n \<and> n \<le> 57)"

definition readNat :: "string \<Rightarrow> nat" where
  "readNat t = foldl (\<lambda>acc c. 10 * acc + (of_char c - 48)) 0 t"

definition parseDigits :: "string \<Rightarrow> nat option" where
  "parseDigits t =
     (if t \<noteq> [] \<and> list_all isDigit t \<and> (t = ''0'' \<or> hd t \<noteq> CHR ''0'') then Some (readNat t)
      else None)"

definition parseLiteral :: "string \<Rightarrow> json option" where
  "parseLiteral t =
     (if t = ''null'' then Some JNull
      else if t = ''true'' then Some (JBool True)
      else if t = ''false'' then Some (JBool False)
      else (case t of
              [] \<Rightarrow> None
            | c # cs \<Rightarrow>
                if c = CHR ''-'' then map_option (\<lambda>n. JNum (- int n)) (parseDigits cs)
                else map_option (\<lambda>n. JNum (int n)) (parseDigits t)))"

text \<open>
  Its sort, for a comparator that is not consistent, is the one V8 applies to an array
  of fewer than 64 elements: the run the array starts with is found (and reversed when
  it descends strictly), and every later element is put into place by a binary
  search.
\<close>

fun runLength :: "('a \<Rightarrow> 'a \<Rightarrow> int) \<Rightarrow> bool \<Rightarrow> 'a \<Rightarrow> 'a list \<Rightarrow> nat" where
  "runLength cmp descending previous [] = 0"
| "runLength cmp descending previous (x # xs) =
     (if (cmp x previous < 0) = descending then Suc (runLength cmp descending x xs) else 0)"

function binarySearch :: "('a \<Rightarrow> 'a \<Rightarrow> int) \<Rightarrow> 'a \<Rightarrow> 'a list \<Rightarrow> nat \<Rightarrow> nat \<Rightarrow> nat" where
  "binarySearch cmp pivot xs left right =
     (if left < right
      then (let mid = left + (right - left) div 2
            in if cmp pivot (xs ! mid) < 0 then binarySearch cmp pivot xs left mid
               else binarySearch cmp pivot xs (mid + 1) right)
      else left)"
  by pat_completeness auto
termination
  by (relation "measure (\<lambda>(cmp, pivot, xs, left, right). right - left)") auto

definition binaryInsert :: "('a \<Rightarrow> 'a \<Rightarrow> int) \<Rightarrow> 'a list \<Rightarrow> 'a \<Rightarrow> 'a list" where
  "binaryInsert cmp xs pivot =
     (let k = binarySearch cmp pivot xs 0 (length xs) in take k xs @ pivot # drop k xs)"

definition v8Sort :: "('a \<Rightarrow> 'a \<Rightarrow> int) \<Rightarrow> 'a list \<Rightarrow> 'a list" where
  "v8Sort cmp xs =
     (case xs of
        x # y # rest \<Rightarrow>
          (let descending = (cmp y x < 0);
               n = 2 + runLength cmp descending y rest;
               run = (if descending then rev (take n xs) else take n xs)
           in foldl (binaryInsert cmp) run (drop n xs))
      | _ \<Rightarrow> xs)"

definition nodePlatform :: platform where
  "nodePlatform =
     \<lparr>isNode = True,
      uuidv4 = (\<lambda>n. ''uuid-'' @ showNat n),
      nowISO = (\<lambda>n. ''time-'' @ showNat n),
      looseEqMixed = (\<lambda>a b. False),
      lessThanMixed = (\<lambda>a b. None),
      localeCompare = (\<lambda>a b. if strLess a b then - 1 else if a = b then 0 else 1),
      jsonStringify = stringifyJson,
      jsonParse = parseLiteral,
      btoa = nodeBtoa,
      atob = nodeAtob,
      engineSort = v8Sort\<rparr>"

section \<open>Sequences of calls and example stores\<close>

text \<open>
  A sequence of \<^verbatim>\<open>insert\<close> calls, each on the store the one before has left (whether it
  returned or threw).
\<close>

definition insertAll :: "platform \<Rightarrow> obj list \<Rightarrow> store \<Rightarrow> store" where
  "insertAll env docs s = foldl (\<lambda>acc d. snd (insert_doc env d acc)) s docs"

text \<open>Two states of one transaction: the flag and the three copies are the same.\<close>

definition sameTransaction :: "store \<Rightarrow> store \<Rightarrow> bool" where
  "sameTransaction s s' =
     (inTransaction s' = inTransaction s \<and> initialDataState s' = initialDataState s
      \<and> initialIndexesState s' = initialIndexesState s
      \<and> initialFullTextIndexState s' = initialFullTextIndexState s)"

text \<open>
  A store whose data file holds a tombstone and a live document, with soft deletes
  enabled before the first load; and a store with one change listener and one
  document, inserted outside a transaction.
\<close>

definition tombstoneStore :: store where
  "tombstoneStore =
     newStore\<lparr>softDeleteEnabled := True,
              fileData := Some [[(''_id'', JStr ''a''), (''_deleted'', JBool True)],
                                [(''_id'', JStr ''b'')]]\<rparr>"

definition seedStore :: store where
  "seedStore = snd (insert_doc nodePlatform [(''_id'', JStr ''a''), (''name'', JStr ''Ada'')]
                      (onChange 7 newStore))"

text \<open>
  Secondary indexes none of whose id lists holds \<^verbatim>\<open>undefined\<close>; the store of one
  document and one listener with an index on \<^verbatim>\<open>name\<close>; and a store whose data file
  holds one document, without \<^verbatim>\<open>_id\<close>, with the index \<^verbatim>\<open>createIndex('f')\<close>.
\<close>

definition definedIds :: "(string \<times> index) list \<Rightarrow> bool" where
  "definedIds idxs =
     list_all (\<lambda>(name, idx). list_all (\<lambda>(key, ids). list_all (\<lambda>i. i \<noteq> None) ids) (idxMap idx))
       idxs"

definition indexedStore :: store where
  "indexedStore = createIndex nodePlatform [''name''] None seedStore"

definition orphanStore :: store where
  "orphanStore =
     createIndex nodePlatform [''f''] None (newStore\<lparr>fileData := Some [[(''f'', JStr ''x'')]]\<rparr>)"

text \<open>Three documents with the values 1, 2 and 3 of \<^verbatim>\<open>x\<close>.\<close>

definition threeDocs :: store where
  "threeDocs = insertAll nodePlatform
     [[(''_id'', JStr ''a''), (''x'', JNum 1)], [(''_id'', JStr ''b''), (''x'', JNum 2)],
      [(''_id'', JStr ''c''), (''x'', JNum 3)]] newStore"

text \<open>
  For the order of \<^verbatim>\<open>get\<close>: a value that is not an array or an object; a list in
  which no document with a \<^verbatim>\<open>null\<close> or missing field comes before one with a value
  (\<open>nullsLast\<close>), or after one (\<open>nullsFirst\<close>); and the collection of the example.
\<close>

definition primitiveVal :: "json option \<Rightarrow> bool" where
  "primitiveVal v = (case v of Some (JArr xs) \<Rightarrow> False | Some (JObj kvs) \<Rightarrow> False | _ \<Rightarrow> True)"







text \<open>
  The full scan the index step of \<^verbatim>\<open>get\<close> is compared with: the pipeline of \<^verbatim>\<open>get\<close>
  without step 2, every condition evaluated on every document.
\<close>

definition fullScan :: "platform \<Rightarrow> store \<Rightarrow> obj list" where
  "fullScan env s =
     (let s1 = loadIndexes env (loadData env s)
      in map (decryptDocument env s1)
           (applySkipLimit s1 (applyOrder env s1
              (filter (matchesAll env (wheres s1)) (softDeleteFilter s1 (deepClone (data s1)))))))"

text \<open>
  A collection in which one document has the string \<^verbatim>\<open>"NULL"\<close> in the field \<^verbatim>\<open>f\<close> and
  another has \<^verbatim>\<open>null\<close>, with the index \<^verbatim>\<open>createIndex('f')\<close>.
\<close>

definition nullKeyStore :: store where
  "nullKeyStore =
     createIndex nodePlatform [''f''] None
       (newStore\<lparr>data := [[(''_id'', JStr ''a''), (''f'', JStr ''NULL'')],
                            [(''_id'', JStr ''b''), (''f'', JNull)]],
                 dataLoaded := True\<rparr>)"

text \<open>
  A collection of two documents with a validation callback that rejects the document
  \<^verbatim>\<open>b\<close> once its \<^verbatim>\<open>x\<close> is 9.
\<close>

definition rejectNine :: "obj \<Rightarrow> bool" where
  "rejectNine d = (\<not> (map_of d ''_id'' = Some (JStr ''b'') \<and> map_of d ''x'' = Some (JNum 9)))"

definition validatedStore :: store where
  "validatedStore =
     registerValidationCallback rejectNine
       (newStore\<lparr>data := [[(''_id'', JStr ''a''), (''x'', JNum 1)],
                            [(''_id'', JStr ''b''), (''x'', JNum 2)]],
                 dataLoaded := True\<rparr>)"








text \<open>
  Two stores with the same collection, secondary indexes and full-text index; and a
  store of two documents inside a transaction scoped to the document \<^verbatim>\<open>a\<close>.
\<close>

definition sameContents :: "store \<Rightarrow> store \<Rightarrow> bool" where
  "sameContents s s' =
     (data s' = data s \<and> indexes s' = indexes s \<and> fullTextIndex s' = fullTextIndex s)"






datatype mutation =
    Insert obj
  | InsertMany "obj list"
  | Update "cond list" obj
  | Delete "json option"

fun applyMutation :: "platform \<Rightarrow> mutation \<Rightarrow> store \<Rightarrow> store" where
  "applyMutation env (Insert d) s = snd (insert_doc env d s)"
| "applyMutation env (InsertMany ds) s = snd (insertMany env ds s)"
| "applyMutation env (Update conds updates) s =
     snd (update_docs env updates (s\<lparr>wheres := wheres s @ conds\<rparr>))"
| "applyMutation env (Delete i) s = snd (delete_doc env i s)"


fun run :: "platform \<Rightarrow> mutation list \<Rightarrow> store \<Rightarrow> store" where
  "run env [] s = loadAll env s"
| "run env (m # ms) s = run env ms (applyMutation env m s)"




section \<open>Basic facts\<close>

text \<open>What loading and saving leave alone.\<close>

lemma loadAll_frame:
  "inTransaction (loadAll env s) = inTransaction s"
  "transactionLock (loadAll env s) = transactionLock s"
  "initialDataState (loadAll env s) = initialDataState s"
  "initialIndexesState (loadAll env s) = initialIndexesState s"
  "initialFullTextIndexState (loadAll env s) = initialFullTextIndexState s"
  "delivered (loadAll env s) = delivered s"
  "changeListeners (loadAll env s) = changeListeners s"
  "transactionLog (loadAll env s) = transactionLog s"
  by (simp_all add: loadAll_def loadData_def loadIndexes_def loadFullTextIndex_def
        split: option.splits)

lemma loadAll_loaded:
  "dataLoaded s \<Longrightarrow> data (loadAll env s) = data s"
  "indexesLoaded s \<Longrightarrow> indexes (loadAll env s) = indexes s"
  "fullTextIndexLoaded s \<Longrightarrow> fullTextIndex (loadAll env s) = fullTextIndex s"
  by (simp_all add: loadAll_def loadData_def loadIndexes_def loadFullTextIndex_def
        split: option.splits)

lemma saveAll_frame:
  "inTransaction (saveAll env s) = inTransaction s"
  "transactionLog (saveAll env s) = transactionLog s"
  "delivered (saveAll env s) = delivered s"
  by (simp_all add: saveAll_def saveData_def saveIndexes_def saveFullTextIndex_def)

text \<open>
  Decryption depends on the key and the encrypted fields only; after the three loads
  everything is loaded; the state \<^verbatim>\<open>get\<close> leaves; strict equality on a value that is
  not an array or an object is equality.
\<close>

lemma decryptDocument_cong:
  "encryptionKey s' = encryptionKey s \<Longrightarrow> encryptedFields s' = encryptedFields s \<Longrightarrow>
     decryptDocument env s' = decryptDocument env s"
  by (auto simp: decryptDocument_def fun_eq_iff split: option.splits)

lemma loadAll_flags:
  "dataLoaded (loadAll env s)" "indexesLoaded (loadAll env s)" "fullTextIndexLoaded (loadAll env s)"
  by (simp_all add: loadAll_def loadData_def loadIndexes_def loadFullTextIndex_def
        split: option.splits)


lemma strictEq_primitive: "primitiveVal v \<Longrightarrow> strictEq v w = (v = w)"
  by (cases v; cases "the v") (simp_all add: primitiveVal_def)



section \<open>Loading drops tombstones\<close>

text \<open>
  Claim C10. When soft deletes are enabled and deleted documents are not shown at the
  first load of the data file, the collection in memory is the file's content without
  the documents marked \<^verbatim>\<open>_deleted\<close>, and a save then writes exactly that collection:
  the file no longer holds a tombstone.
\<close>

theorem load_then_save_drops_tombstones:
  assumes "isNode env" and "\<not> dataLoaded s" and "softDeleteEnabled s" and "\<not> showDeleted s"
    and "fileData s = Some content"
  shows "data (loadData env s) = filter (\<lambda>d. \<not> isDeleted d) content
       \<and> fileData (saveData env (loadData env s)) = Some (filter (\<lambda>d. \<not> isDeleted d) content)
       \<and> (\<forall>d \<in> set (data (loadData env s)). \<not> isDeleted d)"
  using assms by (simp add: loadData_def saveData_def)

theorem load_then_save_drops_tombstones_witness:
  "isNode nodePlatform \<and> \<not> dataLoaded tombstoneStore \<and> softDeleteEnabled tombstoneStore
   \<and> \<not> showDeleted tombstoneStore
   \<and> fileData tombstoneStore
        = Some [[(''_id'', JStr ''a''), (''_deleted'', JBool True)], [(''_id'', JStr ''b'')]]
   \<and> data (loadData nodePlatform tombstoneStore) = [[(''_id'', JStr ''b'')]]
   \<and> fileData (saveData nodePlatform (loadData nodePlatform tombstoneStore))
        = Some [[(''_id'', JStr ''b'')]]"
proof -
  have h: "isNode nodePlatform" "\<not> dataLoaded tombstoneStore" "softDeleteEnabled tombstoneStore"
    "\<not> showDeleted tombstoneStore"
    "fileData tombstoneStore
       = Some [[(''_id'', JStr ''a''), (''_deleted'', JBool True)], [(''_id'', JStr ''b'')]]"
    by (simp_all add: nodePlatform_def tombstoneStore_def newStore_def)
  show ?thesis
    using h load_then_save_drops_tombstones [OF h]
    by (simp add: isDeleted_def)
qed

section \<open>Transactions\<close>

subsection \<open>Inside a transaction no listener is called\<close>

lemma triggerChanges_in_transaction:
  "inTransaction s \<Longrightarrow> triggerChanges ds kind s = s"
  by (induction ds arbitrary: s) (simp_all add: triggerChange_def)

lemma replayEntry_in_transaction:
  "inTransaction s \<Longrightarrow> replayEntry env entry s = s"
  by (cases entry) (simp_all add: triggerChange_def triggerChanges_in_transaction)

lemma replay_in_transaction:
  "inTransaction s \<Longrightarrow> foldl (\<lambda>acc entry. replayEntry env entry acc) s entries = s"
  by (induction entries) (simp_all add: replayEntry_in_transaction)

lemma insert_doc_in_transaction:
  assumes "inTransaction s"
  shows "sameTransaction s (snd (insert_doc env d s))
       \<and> delivered (snd (insert_doc env d s)) = delivered s"
  using assms
  by (auto simp: insert_doc_def Let_def sameTransaction_def loadAll_frame prepareInsert_def
        storeDoc_def persistOrLog_def triggerChange_def split: prod.splits option.splits)

lemma insertAll_in_transaction:
  "inTransaction s \<Longrightarrow>
     sameTransaction s (insertAll env docs s) \<and> delivered (insertAll env docs s) = delivered s"
proof (induction docs arbitrary: s)
  case Nil
  then show ?case by (simp add: insertAll_def sameTransaction_def)
next
  case (Cons d docs)
  have step: "sameTransaction s (snd (insert_doc env d s))"
    "delivered (snd (insert_doc env d s)) = delivered s"
    using insert_doc_in_transaction [OF Cons.prems] by simp_all
  then have "inTransaction (snd (insert_doc env d s))"
    using Cons.prems by (simp add: sameTransaction_def)
  from Cons.IH [OF this] step show ?case
    by (simp add: insertAll_def sameTransaction_def)
qed

subsection \<open>Commit\<close>

text \<open>
  \<^verbatim>\<open>commit\<close> replays the log while \<^verbatim>\<open>inTransaction\<close> is still set (it is cleared by
  \<^verbatim>\<open>_endTransaction\<close> in the \<^verbatim>\<open>finally\<close> block, after the loop), and \<^verbatim>\<open>_triggerChange\<close>
  calls the listeners only when it is not set: whatever the log holds, \<^verbatim>\<open>commit\<close>
  delivers nothing.
\<close>

lemma commit_delivers_nothing:
  "inTransaction s \<Longrightarrow>
     fst (commit env s) = Inr () \<and> delivered (snd (commit env s)) = delivered s"
  by (simp add: commit_def Let_def replay_in_transaction saveAll_frame endTransaction_def)

text \<open>
  Claim C1 says that \<^verbatim>\<open>commit\<close> fires one notification per buffered mutation, in log
  order. On the store with one listener: after \<^verbatim>\<open>beginTransaction()\<close> and the insert
  of a document, the log holds that insert; \<^verbatim>\<open>commit()\<close> returns, the listener has
  received nothing beyond the one notification it had before the transaction, and the
  data file holds both documents.
\<close>

theorem commit_notifies_no_listener:
  "changeListeners seedStore = [7]
   \<and> transactionLog (snd (insert_doc nodePlatform [(''_id'', JStr ''b''), (''name'', JStr ''Bob'')]
        (snd (beginTransaction nodePlatform JNull seedStore))))
       = [LogInsert [(''_id'', JStr ''b''), (''name'', JStr ''Bob''),
            (''_created'', JStr ''time-2''), (''_updated'', JStr ''time-2''),
            (''_revisions'', JArr [JObj [(''_revisionId'', JStr ''uuid-1''),
               (''_timestamp'', JStr ''time-3''), (''_action'', JStr ''insert'')]])]]
   \<and> fst (commit nodePlatform
        (snd (insert_doc nodePlatform [(''_id'', JStr ''b''), (''name'', JStr ''Bob'')]
           (snd (beginTransaction nodePlatform JNull seedStore))))) = Inr ()
   \<and> delivered (snd (commit nodePlatform
        (snd (insert_doc nodePlatform [(''_id'', JStr ''b''), (''name'', JStr ''Bob'')]
           (snd (beginTransaction nodePlatform JNull seedStore))))))
       = delivered seedStore
   \<and> length (delivered seedStore) = 1
   \<and> map_option (map docId) (fileData (snd (commit nodePlatform
        (snd (insert_doc nodePlatform [(''_id'', JStr ''b''), (''name'', JStr ''Bob'')]
           (snd (beginTransaction nodePlatform JNull seedStore)))))))
       = Some [Some (JStr ''a''), Some (JStr ''b'')]"
  by code_simp

subsection \<open>Rollback\<close>

lemma beginTransaction_state:
  assumes "isNode env" and "\<not> inTransaction s"
  shows "fst (beginTransaction env scope s) = Inr ()"
    and "inTransaction (snd (beginTransaction env scope s))"
    and "initialDataState (snd (beginTransaction env scope s)) = Some (data (loadAll env s))"
    and "initialIndexesState (snd (beginTransaction env scope s))
           = Some (jsonIndexes (indexes (loadAll env s)))"
    and "initialFullTextIndexState (snd (beginTransaction env scope s))
           = Some (fullTextIndex (loadAll env s))"
    and "delivered (snd (beginTransaction env scope s)) = delivered s"
  using assms
  by (simp_all add: beginTransaction_def Let_def loadAll_def loadData_def loadIndexes_def
        loadFullTextIndex_def split: option.splits)

lemma rollback_state:
  assumes "inTransaction s"
  shows "fst (rollback env s) = Inr ()"
    and "data (snd (rollback env s)) = (case initialDataState s of Some ds \<Rightarrow> ds | None \<Rightarrow> [])"
    and "indexes (snd (rollback env s))
           = (case initialIndexesState s of Some ix \<Rightarrow> ix | None \<Rightarrow> [])"
    and "fullTextIndex (snd (rollback env s))
           = (case initialFullTextIndexState s of Some ft \<Rightarrow> ft | None \<Rightarrow> [])"
    and "delivered (snd (rollback env s)) = delivered s"
    and "\<not> inTransaction (snd (rollback env s))"
  using assms
  by (simp_all add: rollback_def endTransaction_def saveAll_def saveData_def saveIndexes_def
        saveFullTextIndex_def)

lemma jsonIds_defined: "list_all (\<lambda>i. i \<noteq> None) ids \<Longrightarrow> jsonIds ids = ids"
  by (induction ids) (auto simp: jsonIds_def)

lemma jsonIndex_defined:
  "list_all (\<lambda>(key, ids). list_all (\<lambda>i. i \<noteq> None) ids) (idxMap idx) \<Longrightarrow> jsonIndex idx = idx"
proof -
  assume a: "list_all (\<lambda>(key, ids). list_all (\<lambda>i. i \<noteq> None) ids) (idxMap idx)"
  have "map (\<lambda>(k, ids). (k, jsonIds ids)) m = m"
    if "list_all (\<lambda>(key, ids). list_all (\<lambda>i. i \<noteq> None) ids) m"
    for m :: "(string \<times> json option list) list"
    using that by (induction m) (auto simp: jsonIds_defined)
  from this [OF a] show ?thesis by (simp add: jsonIndex_def)
qed

lemma jsonIndexes_defined: "definedIds idxs \<Longrightarrow> jsonIndexes idxs = idxs"
  by (induction idxs) (auto simp: definedIds_def jsonIndexes_def jsonIndex_defined)

text \<open>
  Claim C2, amended. From a store \<open>s\<close> with no transaction active, in Node.js:
  \<^verbatim>\<open>beginTransaction\<close> succeeds, and after any sequence of \<^verbatim>\<open>insert\<close> calls \<^verbatim>\<open>rollback\<close>
  succeeds and leaves the collection and the full-text index as \<open>s\<close> has them once
  loaded (as they are in \<open>s\<close> itself when \<open>s\<close> is loaded), and the secondary indexes
  as the JSON copy of those of \<open>s\<close>: the same indexes when no id list of theirs holds
  \<^verbatim>\<open>undefined\<close>, and otherwise the indexes with \<^verbatim>\<open>null\<close> in its place. No listener is
  called by \<^verbatim>\<open>beginTransaction\<close>, after any number of the inserts, or by \<^verbatim>\<open>rollback\<close>.
\<close>

theorem rollback_restores_snapshot:
  assumes "isNode env" and "\<not> inTransaction s"
  shows "let s1 = snd (beginTransaction env scope s);
             s2 = insertAll env docs s1;
             s3 = snd (rollback env s2)
         in fst (beginTransaction env scope s) = Inr () \<and> fst (rollback env s2) = Inr ()
            \<and> data s3 = data (loadAll env s)
            \<and> indexes s3 = jsonIndexes (indexes (loadAll env s))
            \<and> (definedIds (indexes (loadAll env s)) \<longrightarrow> indexes s3 = indexes (loadAll env s))
            \<and> fullTextIndex s3 = fullTextIndex (loadAll env s)
            \<and> (dataLoaded s \<longrightarrow> data s3 = data s)
            \<and> (indexesLoaded s \<and> definedIds (indexes s) \<longrightarrow> indexes s3 = indexes s)
            \<and> (fullTextIndexLoaded s \<longrightarrow> fullTextIndex s3 = fullTextIndex s)
            \<and> delivered s1 = delivered s
            \<and> (\<forall>n. delivered (insertAll env (take n docs) s1) = delivered s)
            \<and> delivered s3 = delivered s
            \<and> \<not> inTransaction s3"
proof -
  define s1 where "s1 = snd (beginTransaction env scope s)"
  define s2 where "s2 = insertAll env docs s1"
  define s3 where "s3 = snd (rollback env s2)"
  note b = beginTransaction_state [OF assms, of scope, folded s1_def]
  have run: "sameTransaction s1 (insertAll env ds s1) \<and> delivered (insertAll env ds s1) = delivered s1"
    for ds using insertAll_in_transaction [OF b(2)] by simp
  have in2: "inTransaction s2"
    using run [of docs] b(2) by (simp add: s2_def sameTransaction_def)
  note r = rollback_state [OF in2, of env, folded s3_def]
  have snap: "initialDataState s2 = Some (data (loadAll env s))"
    "initialIndexesState s2 = Some (jsonIndexes (indexes (loadAll env s)))"
    "initialFullTextIndexState s2 = Some (fullTextIndex (loadAll env s))"
    using run [of docs] b(3-5) by (simp_all add: s2_def sameTransaction_def)
  have res: "data s3 = data (loadAll env s)"
    "indexes s3 = jsonIndexes (indexes (loadAll env s))"
    "fullTextIndex s3 = fullTextIndex (loadAll env s)"
    using r(2-4) snap by simp_all
  have same: "indexes s3 = indexes (loadAll env s)" if "definedIds (indexes (loadAll env s))"
    using res(2) jsonIndexes_defined [OF that] by simp
  have d1: "delivered (insertAll env (take n docs) s1) = delivered s" for n
    using run [of "take n docs"] b(6) by simp
  have d3: "delivered s3 = delivered s"
    using r(5) run [of docs] b(6) by (simp add: s2_def)
  show ?thesis
    using b(1) b(6) r(1) r(6) res same d1 d3
    unfolding Let_def s1_def [symmetric] s2_def [symmetric] s3_def [symmetric]
    by (auto simp: loadAll_loaded)
qed

theorem rollback_restores_snapshot_witness:
  "isNode nodePlatform \<and> \<not> inTransaction indexedStore
   \<and> definedIds (indexes (loadAll nodePlatform indexedStore))
   \<and> data (insertAll nodePlatform [[(''name'', JStr ''Bob'')]]
              (snd (beginTransaction nodePlatform JNull indexedStore))) \<noteq> data indexedStore
   \<and> indexes (insertAll nodePlatform [[(''name'', JStr ''Bob'')]]
              (snd (beginTransaction nodePlatform JNull indexedStore))) \<noteq> indexes indexedStore
   \<and> data (snd (rollback nodePlatform
              (insertAll nodePlatform [[(''name'', JStr ''Bob'')]]
                 (snd (beginTransaction nodePlatform JNull indexedStore))))) = data indexedStore
   \<and> indexes (snd (rollback nodePlatform
              (insertAll nodePlatform [[(''name'', JStr ''Bob'')]]
                 (snd (beginTransaction nodePlatform JNull indexedStore))))) = indexes indexedStore
   \<and> delivered (snd (rollback nodePlatform
              (insertAll nodePlatform [[(''name'', JStr ''Bob'')]]
                 (snd (beginTransaction nodePlatform JNull indexedStore))))) = delivered indexedStore"
proof -
  have h1: "isNode nodePlatform" by (simp add: nodePlatform_def)
  have h2: "\<not> inTransaction indexedStore" by code_simp
  have h3: "dataLoaded indexedStore" "indexesLoaded indexedStore" by code_simp+
  have h4: "data (insertAll nodePlatform [[(''name'', JStr ''Bob'')]]
              (snd (beginTransaction nodePlatform JNull indexedStore))) \<noteq> data indexedStore"
    "indexes (insertAll nodePlatform [[(''name'', JStr ''Bob'')]]
              (snd (beginTransaction nodePlatform JNull indexedStore))) \<noteq> indexes indexedStore"
    by code_simp+
  have l: "data (loadAll nodePlatform indexedStore) = data indexedStore"
    "indexes (loadAll nodePlatform indexedStore) = indexes indexedStore"
    using h3 by (simp_all add: loadAll_loaded)
  have h5: "definedIds (indexes (loadAll nodePlatform indexedStore))"
    unfolding l by code_simp
  show ?thesis
    using h1 h2 h4 h5
      rollback_restores_snapshot [OF h1 h2, of JNull "[[(''name'', JStr ''Bob'')]]"]
    unfolding Let_def l by blast
qed

text \<open>
  Claim C2 as stated fails for the secondary indexes of a store whose data file holds a
  document without \<^verbatim>\<open>_id\<close>: \<^verbatim>\<open>createIndex\<close> lists the id \<^verbatim>\<open>undefined\<close> for it, the copy
  that \<^verbatim>\<open>beginTransaction\<close> keeps holds \<^verbatim>\<open>null\<close>, and after \<^verbatim>\<open>rollback\<close> the query that
  found the document through the index finds nothing.
\<close>

theorem rollback_changes_index:
  "\<not> inTransaction orphanStore
   \<and> data orphanStore = [[(''f'', JStr ''x'')]]
   \<and> indexes orphanStore = [(''f'', \<lparr>idxFields = [''f''], idxMap = [(''x'', [None])]\<rparr>)]
   \<and> fst (get_docs nodePlatform (where_cond ''f'' ''='' (Some (JStr ''x'')) orphanStore))
       = [[(''f'', JStr ''x'')]]
   \<and> fst (rollback nodePlatform
        (insertAll nodePlatform [[(''_id'', JStr ''n'')]]
           (snd (beginTransaction nodePlatform JNull orphanStore)))) = Inr ()
   \<and> data (snd (rollback nodePlatform
        (insertAll nodePlatform [[(''_id'', JStr ''n'')]]
           (snd (beginTransaction nodePlatform JNull orphanStore))))) = data orphanStore
   \<and> indexes (snd (rollback nodePlatform
        (insertAll nodePlatform [[(''_id'', JStr ''n'')]]
           (snd (beginTransaction nodePlatform JNull orphanStore)))))
       = [(''f'', \<lparr>idxFields = [''f''], idxMap = [(''x'', [Some JNull])]\<rparr>)]
   \<and> fst (get_docs nodePlatform (where_cond ''f'' ''='' (Some (JStr ''x''))
        (snd (rollback nodePlatform
           (insertAll nodePlatform [[(''_id'', JStr ''n'')]]
              (snd (beginTransaction nodePlatform JNull orphanStore))))))) = []"
  by code_simp

section \<open>Pagination\<close>

lemma count_docs_result:
  "fst (count_docs env s)
     = length (filter (matchesAll env (wheres s))
                 (softDeleteFilter (loadData env s) (data (loadData env s))))"
  by (simp add: count_docs_def Let_def loadData_def split: option.splits)

lemma count_docs_state:
  "snd (count_docs env s) = resetQuery (loadData env s)"
  by (simp add: count_docs_def Let_def)

text \<open>
  Claim C9. \<^verbatim>\<open>paginate\<close> counts the documents that satisfy the conditions of the query
  (under the soft-delete rule as the query has set it). \<^verbatim>\<open>count\<close> resets the query state
  before \<^verbatim>\<open>get\<close> runs, so the page is cut, by skip and limit alone, out of the whole
  collection (without the tombstones when soft deletes are enabled): it does not depend
  on the conditions, and neither on the order nor on \<^verbatim>\<open>withTrashed\<close>.
\<close>

theorem paginate_page_ignores_conditions:
  "totalCount (fst (paginate env page0 size0 s))
     = int (length (filter (matchesAll env (wheres s))
                      (softDeleteFilter (loadData env s) (data (loadData env s)))))
   \<and> pgData (fst (paginate env page0 size0 s))
     = map (decryptDocument env s)
         (take (nat (max 1 size0))
            (drop (nat ((max 1 page0 - 1) * max 1 size0))
               (if softDeleteEnabled s then filter (\<lambda>d. \<not> isDeleted d) (data (loadData env s))
                else data (loadData env s))))"
proof -
  obtain n s1 where c: "count_docs env s = (n, s1)" by (cases "count_docs env s")
  have n: "n = length (filter (matchesAll env (wheres s))
                 (softDeleteFilter (loadData env s) (data (loadData env s))))"
    using count_docs_result [of env s] c by simp
  have s1: "s1 = resetQuery (loadData env s)"
    using count_docs_state [of env s] c by simp
  define pg where "pg = (if page0 < 1 then 1 else page0)"
  define pp where "pp = (if size0 < 1 then 1 else size0)"
  have pos: "1 \<le> pg" "1 \<le> pp" by (simp_all add: pg_def pp_def)
  have mx: "max 1 page0 = pg" "max 1 size0 = pp" by (simp_all add: pg_def pp_def max_def)
  define q where "q = skip_q ((pg - 1) * pp) (limit_q pp s1)"
  have ld: "dataLoaded q" "data q = data (loadData env s)" "wheres q = []"
    "orderByField q = None" "limitCount q = Some pp" "skipCount q = (pg - 1) * pp"
    "softDeleteEnabled q = softDeleteEnabled s" "\<not> showDeleted q"
    "encryptionKey q = encryptionKey s" "encryptedFields q = encryptedFields s"
    by (simp_all add: q_def s1 skip_q_def limit_q_def resetQuery_def loadData_def
          split: option.splits)
  define q1 where "q1 = loadIndexes env (loadData env q)"
  have q1: "data q1 = data (loadData env s)" "wheres q1 = []"
    "orderByField q1 = None" "limitCount q1 = Some pp" "skipCount q1 = (pg - 1) * pp"
    "softDeleteEnabled q1 = softDeleteEnabled s" "\<not> showDeleted q1"
    "encryptionKey q1 = encryptionKey s" "encryptedFields q1 = encryptedFields s"
    using ld by (simp_all add: q1_def loadData_def loadIndexes_def)
  have sel: "selectDocs env q1
      = (if softDeleteEnabled s then filter (\<lambda>d. \<not> isDeleted d) (data (loadData env s))
         else data (loadData env s))"
    using q1 by (simp add: selectDocs_def indexStage_def potentialIndexFilter_def
        softDeleteFilter_def matchesAll_def)
  have ord: "applyOrder env q1 ds = ds" for ds
    using q1 by (simp add: applyOrder_def)
  have sl: "applySkipLimit q1 ds = take (nat pp) (drop (nat ((pg - 1) * pp)) ds)" for ds
    using q1 pos by (simp add: applySkipLimit_def Let_def)
  have g: "fst (get_docs env q)
      = map (decryptDocument env s)
          (take (nat pp) (drop (nat ((pg - 1) * pp))
             (if softDeleteEnabled s then filter (\<lambda>d. \<not> isDeleted d) (data (loadData env s))
              else data (loadData env s))))"
    unfolding get_docs_def Let_def q1_def [symmetric]
    using decryptDocument_cong [OF q1(8) q1(9), of env]
    by (simp add: sel ord sl)
  obtain docs s2 where gd: "get_docs env q = (docs, s2)" by (cases "get_docs env q")
  have docs: "docs = map (decryptDocument env s)
          (take (nat pp) (drop (nat ((pg - 1) * pp))
             (if softDeleteEnabled s then filter (\<lambda>d. \<not> isDeleted d) (data (loadData env s))
              else data (loadData env s))))"
    using g gd by simp
  have "paginate env page0 size0 s
      = (\<lparr>pgData = docs, currentPage = pg, perPage = pp, totalCount = int n,
          totalPages = - ((- int n) div pp), hasMorePages = (pg < - ((- int n) div pp)),
          nextPage = (if pg < - ((- int n) div pp) then Some (pg + 1) else None),
          prevPage = (if pg > 1 then Some (pg - 1) else None)\<rparr>, s2)"
    by (simp add: paginate_def Let_def c pg_def [symmetric] pp_def [symmetric]
        q_def [symmetric] gd)
  then show ?thesis
    unfolding mx using docs n by simp
qed

theorem paginate_page_ignores_conditions_witness:
  "fst (count_docs nodePlatform (where_cond ''x'' ''='' (Some (JNum 2)) threeDocs)) = 1
   \<and> totalCount (fst (paginate nodePlatform 1 10 (where_cond ''x'' ''='' (Some (JNum 2)) threeDocs))) = 1
   \<and> map (\<lambda>d. map_of d ''x'')
        (pgData (fst (paginate nodePlatform 1 10 (where_cond ''x'' ''='' (Some (JNum 2)) threeDocs))))
      = [Some (JNum 1), Some (JNum 2), Some (JNum 3)]"
proof -
  have c: "fst (count_docs nodePlatform (where_cond ''x'' ''='' (Some (JNum 2)) threeDocs)) = 1"
    by code_simp
  have d: "map (\<lambda>d. map_of d ''x'')
     (map (decryptDocument nodePlatform (where_cond ''x'' ''='' (Some (JNum 2)) threeDocs))
         (take (nat (max 1 10))
            (drop (nat ((max 1 1 - 1) * max 1 10))
               (if softDeleteEnabled (where_cond ''x'' ''='' (Some (JNum 2)) threeDocs)
                then filter (\<lambda>d. \<not> isDeleted d)
                       (data (loadData nodePlatform (where_cond ''x'' ''='' (Some (JNum 2)) threeDocs)))
                else data (loadData nodePlatform (where_cond ''x'' ''='' (Some (JNum 2)) threeDocs))))))
     = [Some (JNum 1), Some (JNum 2), Some (JNum 3)]"
    by code_simp
  show ?thesis
    using c d paginate_page_ignores_conditions
        [of nodePlatform 1 10 "where_cond ''x'' ''='' (Some (JNum 2)) threeDocs"]
    by (simp add: count_docs_result)
qed

section \<open>Ordering\<close>























section \<open>The equality index\<close>

text \<open>
  Claim C5 says that \<^verbatim>\<open>get\<close> with the single condition \<^verbatim>\<open>where('f', '=', v)\<close> returns,
  through the index on \<^verbatim>\<open>f\<close>, what the full scan returns. The index is keyed by the
  serialized value, and \<^verbatim>\<open>null\<close> is serialized as \<^verbatim>\<open>"NULL"\<close>: with \<open>v = null\<close> the entry
  found is that of the document whose \<^verbatim>\<open>f\<close> is the string \<^verbatim>\<open>"NULL"\<close>; \<^verbatim>\<open>get\<close> returns that
  document and drops the condition, while the full scan returns the document whose
  \<^verbatim>\<open>f\<close> is \<^verbatim>\<open>null\<close>.
\<close>

theorem indexed_get_differs_from_full_scan:
  "indexes nullKeyStore = [(''f'', \<lparr>idxFields = [''f''], idxMap = [(''NULL'', [Some (JStr ''a'')])]\<rparr>)]
   \<and> fst (get_docs nodePlatform (where_cond ''f'' ''='' (Some JNull) nullKeyStore))
       = [[(''_id'', JStr ''a''), (''f'', JStr ''NULL'')]]
   \<and> fullScan nodePlatform (where_cond ''f'' ''='' (Some JNull) nullKeyStore)
       = [[(''_id'', JStr ''b''), (''f'', JNull)]]"
  by code_simp

subsection \<open>String values\<close>

lemma map_of_pushId:
  "map_of (pushId key i m) k
     = (if k = key then Some ((case map_of m key of Some ids \<Rightarrow> ids | None \<Rightarrow> []) @ [i])
        else map_of m k)"
  by (simp add: pushId_def update_conv')

lemma map_of_indexDocs:
  "map_of (indexDocs env fs ds m) k
     = (if filter (\<lambda>d. getCompositeIndexValue env d fs = Some k) ds = [] then map_of m k
        else Some ((case map_of m k of Some ids \<Rightarrow> ids | None \<Rightarrow> [])
                   @ map docId (filter (\<lambda>d. getCompositeIndexValue env d fs = Some k) ds)))"
proof (induction ds arbitrary: m)
  case Nil
  show ?case by simp
next
  case (Cons d ds)
  show ?case
  proof (cases "getCompositeIndexValue env d fs")
    case None
    then show ?thesis using Cons.IH [of m] by simp
  next
    case (Some key)
    show ?thesis
      using Cons.IH [of "pushId key (docId d) m"] Some
      by (auto simp: map_of_pushId split: option.splits)
  qed
qed

lemma composite_single:
  "getCompositeIndexValue env d [f]
     = (if nullish (getValueByDot d f) then None
        else Some (serializeIndexValue env (getValueByDot d f)))"
  by (simp add: getCompositeIndexValue_def)

lemma createIndex_state:
  "dataLoaded (createIndex env [f] None s)"
  "indexesLoaded (createIndex env [f] None s)"
  "data (createIndex env [f] None s) = data (loadData env s)"
  "wheres (createIndex env [f] None s) = wheres s"
  "map_of (indexes (createIndex env [f] None s)) f
     = Some \<lparr>idxFields = [f], idxMap = indexDocs env [f] (data (loadData env s)) []\<rparr>"
  by (simp_all add: createIndex_def Let_def saveIndexes_def loadIndexes_def loadData_def
        update_conv' split: option.splits)

text \<open>
  Where the index step is right: on a collection with pairwise distinct primitive ids
  in which the field is a string, \<^verbatim>\<open>null\<close> or missing in every document, the single
  condition \<^verbatim>\<open>where(f, '=', v)\<close> with a string \<open>v\<close> returns through the index what the
  full scan returns.
\<close>

lemma indexed_get_equals_full_scan_strings:
  assumes "wheres s = []"
    and "distinct (map docId (data (loadData env s)))"
    and "\<forall>d \<in> set (data (loadData env s)). primitiveVal (docId d)"
    and "\<forall>d \<in> set (data (loadData env s)).
           nullish (getValueByDot d f) \<or> (\<exists>t. getValueByDot d f = Some (JStr t))"
  shows "fst (get_docs env (where_cond f ''='' (Some (JStr v)) (createIndex env [f] None s)))
       = fullScan env (where_cond f ''='' (Some (JStr v)) (createIndex env [f] None s))"
proof -
  define D where "D = data (loadData env s)"
  define q where "q = where_cond f ''='' (Some (JStr v)) (createIndex env [f] None s)"
  define idx where "idx = \<lparr>idxFields = [f], idxMap = indexDocs env [f] D []\<rparr>"
  define c where "c = Cond f ''='' (Some (JStr v))"
  note st = createIndex_state [of env f s, folded D_def]
  have q: "dataLoaded q" "indexesLoaded q" "data q = D" "wheres q = [c]"
    "map_of (indexes q) f = Some idx"
    using st assms(1) by (simp_all add: q_def where_cond_def c_def idx_def)
  have ld: "loadIndexes env (loadData env q) = q"
    using q(1,2) by (simp add: loadData_def loadIndexes_def)
  have "(f, idx) \<in> set (indexes q)"
    using q(5) by (rule map_of_SomeD)
  then have used: "f \<in> set (usedIndexes q)"
    by (force simp: usedIndexes_def q(4) c_def idx_def)
  have pot: "potentialIndexFilter q = Some c"
    using used by (auto simp: potentialIndexFilter_def q(4) c_def)
  have val: "getCompositeIndexValue env d [f] = Some v \<longleftrightarrow> looseEq env (getValueByDot d f) (Some (JStr v))"
    if "d \<in> set D" for d
    using assms(4) that
    by (auto simp: D_def composite_single serializeIndexValue_def looseEq_def)
  have m: "matchesAll env [c] d = looseEq env (getValueByDot d f) (Some (JStr v))" for d
    by (simp add: matchesAll_def c_def testCondition_def)
  define R where "R = softDeleteFilter q D"
  have R: "set R \<subseteq> set D"
    by (auto simp: R_def softDeleteFilter_def)
  have sel: "selectDocs env q = filter (matchesAll env [c]) R"
  proof (cases "filter (\<lambda>d. getCompositeIndexValue env d [f] = Some v) D = []")
    case True
    then have "map_of (idxMap idx) (serializeIndexValue env (Some (JStr v))) = None"
      by (simp add: idx_def map_of_indexDocs serializeIndexValue_def)
    then show ?thesis
      by (simp add: selectDocs_def indexStage_def pot c_def q R_def)
  next
    case False
    define new where "new = map docId (filter (\<lambda>d. getCompositeIndexValue env d [f] = Some v) D)"
    have look: "map_of (idxMap idx) (serializeIndexValue env (Some (JStr v))) = Some new"
      using False by (simp add: idx_def map_of_indexDocs serializeIndexValue_def new_def)
    have mem: "list_ex (\<lambda>i. strictEq i (docId d)) new \<longleftrightarrow> matchesAll env [c] d"
      if "d \<in> set R" for d
    proof -
      have dD: "d \<in> set D" using that R by blast
      have "list_ex (\<lambda>i. strictEq i (docId d)) new
          \<longleftrightarrow> (\<exists>d' \<in> set D. getCompositeIndexValue env d' [f] = Some v \<and> docId d' = docId d)"
        using assms(3) by (auto simp: new_def list_ex_iff D_def strictEq_primitive)
      also have "\<dots> \<longleftrightarrow> getCompositeIndexValue env d [f] = Some v"
        using assms(2) dD unfolding D_def [symmetric]
        by (metis distinct_map inj_onD)
      finally show ?thesis
        using val [OF dD] by (simp add: m)
    qed
    have "selectDocs env q = filter (\<lambda>d. list_ex (\<lambda>i. strictEq i (docId d)) new) R"
      using look
      by (simp add: selectDocs_def indexStage_def pot c_def q R_def matchesAll_def)
    also have "\<dots> = filter (matchesAll env [c]) R"
      using mem by (intro filter_cong) auto
    finally show ?thesis .
  qed
  show ?thesis
    unfolding q_def [symmetric]
    by (simp add: get_docs_def fullScan_def Let_def ld sel R_def q)
qed

section \<open>Validation in an update\<close>

text \<open>
  Claim C4 says that a matched document whose merged result a validator rejects stays
  unchanged in the collection. \<^verbatim>\<open>update\<close> merges the patch into the stored document
  before it validates. With the patch \<^verbatim>\<open>{x: 9}\<close> on the two documents: the call throws
  the validation error at \<^verbatim>\<open>b\<close>; \<^verbatim>\<open>a\<close>, updated before, keeps 9; and \<^verbatim>\<open>b\<close> is stored
  with 9 as well, a document the validator rejects, which the next save (here, by an
  insert) writes to the data file.
\<close>

theorem rejected_update_is_stored:
  "fst (update_docs nodePlatform [(''x'', JNum 9)] validatedStore) = Inl ValidationFailed
   \<and> map (\<lambda>d. (map_of d ''_id'', map_of d ''x'')) (data validatedStore)
       = [(Some (JStr ''a''), Some (JNum 1)), (Some (JStr ''b''), Some (JNum 2))]
   \<and> map (\<lambda>d. (map_of d ''_id'', map_of d ''x''))
        (data (snd (update_docs nodePlatform [(''x'', JNum 9)] validatedStore)))
       = [(Some (JStr ''a''), Some (JNum 9)), (Some (JStr ''b''), Some (JNum 9))]
   \<and> \<not> validateDocument validatedStore
         (data (snd (update_docs nodePlatform [(''x'', JNum 9)] validatedStore)) ! 1)
   \<and> map_option (map (\<lambda>d. (map_of d ''_id'', map_of d ''x'')))
        (fileData (snd (insert_doc nodePlatform [(''_id'', JStr ''c'')]
           (snd (update_docs nodePlatform [(''x'', JNum 9)] validatedStore)))))
       = Some [(Some (JStr ''a''), Some (JNum 9)), (Some (JStr ''b''), Some (JNum 9)),
               (Some (JStr ''c''), None)]"
  by code_simp

section \<open>Full-text search\<close>






















section \<open>The transaction lock\<close>



lemma insertMany_locked:
  assumes "inTransaction s" and "truthy (transactionLock s)"
  shows "fst (insertMany env ds s) = Inl TransactionLock"
    and "sameContents (loadAll env s) (snd (insertMany env ds s))"
  using assms by (simp_all add: insertMany_def Let_def loadAll_frame sameContents_def)












section \<open>The ids of the collection\<close>


















lemma loadAll_idem: "data (loadAll env (loadAll env s)) = data (loadAll env s)"
  by (simp add: loadAll_loaded loadAll_flags)































end
